theory Spec2Isabelle
  imports Main
begin

section \<open>Values, cells, errors and diagnostics\<close>

text \<open>
  Python values that the csv-to-json conversion stores in its dictionaries. A dict keeps
  its insertion order, so it is an association list with distinct keys. A float is
  carried as the text it was parsed from (\<open>PFloat s\<close> stands for \<open>float(s)\<close>; the
  numeric value of a float is not interpreted). Strings are ASCII.
\<close>

datatype pyval =
    PNone
  | PBool bool
  | PInt int
  | PFloat string
  | PStr string
  | PList "pyval list"
  | PDict "(string \<times> pyval) list"

text \<open>
  One cell of a pandas data frame whose column has dtype \<open>object\<close> (each asset column
  holds the text of the mandatory \<open>label\<close> row, so \<open>read_csv\<close> keeps every value as
  text): the missing value, a string, or the integer that the storage check writes.
\<close>

datatype cell = NaN | CStr string | CInt int

datatype pyerr =
    FileExistsError
  | FileNotFoundError
  | ValueError
  | KeyError
  | TypeError
  | UnboundLocalError
  | JSONDecodeError
  | RecursionError
  | MissingParameterError
  | AttributeError
  | RuntimeError

datatype level = DEBUG | INFO | WARNING | ERROR

text \<open>A log record: level, the place that logs (a short tag), the arguments.\<close>

datatype diag = Log level string "string list"

type_synonym 'a res = "(pyerr + 'a) \<times> diag list"

definition ret :: "'a \<Rightarrow> 'a res" where
  "ret x = (Inr x, [])"

definition raise :: "pyerr \<Rightarrow> 'a res" where
  "raise e = (Inl e, [])"

definition logging :: "level \<Rightarrow> string \<Rightarrow> string list \<Rightarrow> unit res" where
  "logging lv tag args = (Inr (), [Log lv tag args])"

text \<open>Sequencing: an exception stops the run, the records logged so far are kept.\<close>

definition bind :: "'a res \<Rightarrow> ('a \<Rightarrow> 'b res) \<Rightarrow> 'b res" where
  "bind m f =
     (case m of
        (Inl e, l) \<Rightarrow> (Inl e, l)
      | (Inr x, l) \<Rightarrow> (case f x of (r, l') \<Rightarrow> (r, l @ l')))"

definition seq :: "unit res \<Rightarrow> 'b res \<Rightarrow> 'b res" where
  "seq m k = bind m (\<lambda>_. k)"

type_synonym pydict = "(string \<times> pyval) list"

text \<open>\<open>d[k] = v\<close> and \<open>d.update({k: v})\<close>: an existing key keeps its position.\<close>

fun dict_set :: "(string \<times> 'v) list \<Rightarrow> string \<Rightarrow> 'v \<Rightarrow> (string \<times> 'v) list" where
  "dict_set [] k v = [(k, v)]"
| "dict_set ((k', v') # d) k v =
     (if k' = k then (k, v) # d else (k', v') # dict_set d k v)"

text \<open>\<open>d.update(e)\<close> for a dict \<open>e\<close>.\<close>

fun dict_update :: "(string \<times> 'v) list \<Rightarrow> (string \<times> 'v) list \<Rightarrow> (string \<times> 'v) list" where
  "dict_update d [] = d"
| "dict_update d ((k, v) # e) = dict_update (dict_set d k v) e"

text \<open>\<open>d[k]\<close>, which raises \<open>KeyError\<close> for a missing key.\<close>

definition dict_get :: "(string \<times> 'v) list \<Rightarrow> string \<Rightarrow> 'v res" where
  "dict_get d k = (case map_of d k of None \<Rightarrow> raise KeyError | Some v \<Rightarrow> ret v)"

section \<open>Strings and numbers of Python\<close>

definition is_space :: "char \<Rightarrow> bool" where
  "is_space c = (c \<in> set [CHR '' '', CHR 0x09, CHR 0x0A, CHR 0x0B, CHR 0x0C, CHR 0x0D,
                            CHR 0x1C, CHR 0x1D, CHR 0x1E, CHR 0x1F])"

definition strip :: "string \<Rightarrow> string" where
  "strip s = rev (dropWhile is_space (rev (dropWhile is_space s)))"

definition is_digit :: "char \<Rightarrow> bool" where
  "is_digit c = (c \<in> set ''0123456789'')"

definition digit_val :: "char \<Rightarrow> int" where
  "digit_val c = int (of_char c) - 48"

text \<open>
  The digits of a decimal literal; one underscore may stand between two digits.
  The flag says whether the previous character was a digit.
\<close>

fun digits_acc :: "bool \<Rightarrow> int \<Rightarrow> string \<Rightarrow> int option" where
  "digits_acc prev acc [] = (if prev then Some acc else None)"
| "digits_acc prev acc (c # cs) =
     (if is_digit c then digits_acc True (10 * acc + digit_val c) cs
      else if c = CHR ''_'' \<and> prev then digits_acc False acc cs
      else None)"

text \<open>\<open>int(s)\<close> for a string: \<open>None\<close> is the \<open>ValueError\<close>.\<close>

definition py_int :: "string \<Rightarrow> int option" where
  "py_int s =
     (case strip s of
        [] \<Rightarrow> None
      | c # cs \<Rightarrow>
          if c = CHR ''-'' then map_option uminus (digits_acc False 0 cs)
          else if c = CHR ''+'' then digits_acc False 0 cs
          else digits_acc False 0 (c # cs))"

text \<open>\<open>s.replace(c, "")\<close> and \<open>s.replace(c, d)\<close> for single characters.\<close>

definition remove_char :: "char \<Rightarrow> string \<Rightarrow> string" where
  "remove_char c s = filter (\<lambda>x. x \<noteq> c) s"

definition replace_char :: "char \<Rightarrow> char \<Rightarrow> string \<Rightarrow> string" where
  "replace_char c d s = map (\<lambda>x. if x = c then d else x) s"

text \<open>\<open>s.split(c)\<close> for a one-character separator: never the empty list.\<close>

fun split_on :: "char \<Rightarrow> string \<Rightarrow> string list" where
  "split_on c [] = [[]]"
| "split_on c (x # xs) =
     (if x = c then [] # split_on c xs
      else (case split_on c xs of
              [] \<Rightarrow> [[x]]
            | w # ws \<Rightarrow> (x # w) # ws))"

text \<open>\<open>t in s\<close> for two strings, and the slice \<open>s[:-n]\<close>.\<close>

fun prefix_of :: "string \<Rightarrow> string \<Rightarrow> bool" where
  "prefix_of [] s = True"
| "prefix_of (a # t) [] = False"
| "prefix_of (a # t) (x # xs) = (a = x \<and> prefix_of t xs)"

fun substring :: "string \<Rightarrow> string \<Rightarrow> bool" where
  "substring t [] = (t = [])"
| "substring t (x # xs) = (prefix_of t (x # xs) \<or> substring t xs)"

definition drop_last :: "nat \<Rightarrow> 'a list \<Rightarrow> 'a list" where
  "drop_last n s = take (length s - n) s"

section \<open>The libraries the module calls\<close>

text \<open>
  A data frame after \<open>read_csv(..., header=0, index_col=0)\<close>: the column labels, and the
  rows in file order, each the index label with the cells of the row by column label.
\<close>

type_synonym row = "(string \<times> cell) list"

record dataframe =
  columns :: "string list"
  rows :: "(string \<times> row) list"

definition index :: "dataframe \<Rightarrow> string list" where
  "index df = map fst (rows df)"

text \<open>
  The parsers of the standard library and of pandas are taken as they are:
  \<open>json_loads s\<close> is \<open>None\<close> where \<open>json.loads\<close> raises, \<open>float_ok s\<close> says whether
  \<open>float(s)\<close> accepts the text, \<open>read_csv\<close> parses the text of a file with a separator,
  \<open>json_dump\<close> is the text that \<open>json.dump(..., skipkeys=True, sort_keys=True, indent=4)\<close>
  writes.
\<close>

record pylib =
  json_loads :: "string \<Rightarrow> pyval option"
  float_ok :: "string \<Rightarrow> bool"
  read_csv :: "string \<Rightarrow> string \<Rightarrow> pyerr + dataframe"
  json_dump :: "pyval \<Rightarrow> string"

section \<open>conversion\<close>

text \<open>The Python value of a cell read out of a row (\<open>nan\<close> is a float).\<close>

fun cell_val :: "cell \<Rightarrow> pyval" where
  "cell_val NaN = PFloat ''nan''"
| "cell_val (CStr s) = PStr s"
| "cell_val (CInt n) = PInt n"

text \<open>\<open>isinstance(value, str) and ("{" in value or "}" in value)\<close>, and the same for brackets.\<close>

fun has_any :: "char \<Rightarrow> char \<Rightarrow> cell \<Rightarrow> bool" where
  "has_any a b (CStr s) = (a \<in> set s \<or> b \<in> set s)"
| "has_any a b _ = False"

fun cell_text :: "cell \<Rightarrow> string" where
  "cell_text (CStr s) = s"
| "cell_text _ = []"

text \<open>
  The numeric branch: \<open>int(value)\<close>, and \<open>float(value)\<close> when that raises. \<open>int(nan)\<close>
  raises and \<open>float(nan)\<close> is \<open>nan\<close>.
\<close>

fun to_number :: "pylib \<Rightarrow> cell \<Rightarrow> pyval res" where
  "to_number L (CInt n) = ret (PInt n)"
| "to_number L NaN = ret (PFloat ''nan'')"
| "to_number L (CStr s) =
     (case py_int s of
        Some n \<Rightarrow> ret (PInt n)
      | None \<Rightarrow> if float_ok L s then ret (PFloat s) else raise ValueError)"

definition conversion ::
  "pylib \<Rightarrow> string \<Rightarrow> pydict \<Rightarrow> row \<Rightarrow> string \<Rightarrow> string \<Rightarrow> cell \<Rightarrow> pydict res" where
  "conversion L filename column_dict row i column v =
     (if has_any (CHR ''{'') (CHR ''}'') v then
        (if CHR ''{'' \<notin> set (cell_text v) \<or> CHR ''}'' \<notin> set (cell_text v) then
           seq (logging WARNING ''brace_missing'' [filename, column, i]) (ret column_dict)
         else
           (case json_loads L (replace_char (CHR 0x27) (CHR 0x22) (cell_text v)) of
              None \<Rightarrow> raise JSONDecodeError
            | Some value_dict \<Rightarrow>
                seq (logging INFO ''timeseries'' [i, column])
                    (ret (dict_set column_dict i value_dict))))
      else
        bind (dict_get row ''unit'') (\<lambda>unit.
          if unit = CStr ''str'' then ret (dict_set column_dict i (cell_val v))
          else
            bind
              (if unit = CStr ''bool'' then
                 (if v \<in> set [CStr ''True'', CStr ''true'', CStr ''t''] then ret (PBool True)
                  else if v \<in> set [CStr ''False'', CStr ''false'', CStr ''F''] then ret (PBool False)
                  else seq (logging WARNING ''not_a_boolean'' []) (ret (cell_val v)))
               else
                 (if v = CStr ''None'' then ret PNone else to_number L v))
              (\<lambda>value.
                 ret (dict_set column_dict i
                        (PDict [(''value'', value), (''unit'', cell_val unit)])))))"

section \<open>Loops\<close>

text \<open>A \<open>for\<close> loop over a list that updates a state and stops at the first exception.\<close>

fun foldM :: "('s \<Rightarrow> 'a \<Rightarrow> 's res) \<Rightarrow> 'a list \<Rightarrow> 's \<Rightarrow> 's res" where
  "foldM f [] s = ret s"
| "foldM f (x # xs) s = bind (f s x) (foldM f xs)"

text \<open>A loop whose body only logs.\<close>

fun log_each :: "('a \<Rightarrow> unit res) \<Rightarrow> 'a list \<Rightarrow> unit res" where
  "log_each f [] = ret ()"
| "log_each f (x # xs) = seq (f x) (log_each f xs)"

section \<open>The rows of one column\<close>

text \<open>\<open>"value" in x\<close> and \<open>x["value"]\<close> for the value that \<open>conversion\<close> stored.\<close>

fun contains_value :: "pyval \<Rightarrow> bool res" where
  "contains_value (PDict d) = ret (''value'' \<in> fst ` set d)"
| "contains_value (PStr s) = ret (substring ''value'' s)"
| "contains_value (PList xs) = ret (PStr ''value'' \<in> set xs)"
| "contains_value _ = raise TypeError"

fun get_value :: "pyval \<Rightarrow> pyval res" where
  "get_value (PDict d) = dict_get d ''value''"
| "get_value _ = raise TypeError"

text \<open>
  One pass of the loop over the items of a list cell: the item is converted into
  \<open>column_dict[i]\<close> and read back from there into \<open>value_list\<close>.
\<close>

definition list_item ::
  "pylib \<Rightarrow> string \<Rightarrow> row \<Rightarrow> string \<Rightarrow> string \<Rightarrow> pydict \<times> pyval list \<Rightarrow> string \<Rightarrow>
     (pydict \<times> pyval list) res" where
  "list_item L filename row i column st item =
     (case st of (column_dict, value_list) \<Rightarrow>
        bind (conversion L filename column_dict row i column (CStr item)) (\<lambda>column_dict.
        bind (dict_get row ''unit'') (\<lambda>unit.
        bind (if unit \<noteq> CStr ''str'' then
                bind (dict_get column_dict i) (\<lambda>d.
                bind (contains_value d) (\<lambda>b. if b then get_value d else ret d))
              else dict_get column_dict i) (\<lambda>v.
        ret (column_dict, value_list @ [v])))))"

text \<open>The body of \<open>for i, row in df.iterrows()\<close> for one column.\<close>

definition process_row ::
  "pylib \<Rightarrow> string \<Rightarrow> string \<Rightarrow> pydict \<times> string \<Rightarrow> string \<times> row \<Rightarrow> (pydict \<times> string) res" where
  "process_row L filename column st ir =
     (case st of (column_dict, asset_name_string) \<Rightarrow>
      case ir of (i, row) \<Rightarrow>
        bind (dict_get row column) (\<lambda>c.
        bind (if i = ''label'' then
                (case c of
                   CStr s \<Rightarrow> ret (asset_name_string @ s @ '', '')
                 | _ \<Rightarrow> raise TypeError)
              else ret asset_name_string) (\<lambda>asset_name_string.
        bind (if has_any (CHR ''['') (CHR '']'') c then
                (if CHR ''['' \<notin> set (cell_text c) \<or> CHR '']'' \<notin> set (cell_text c) then
                   seq (logging WARNING ''bracket_missing'' [filename, column, i]) (ret column_dict)
                 else
                   bind (foldM (list_item L filename row i column)
                           (split_on (CHR '';'')
                              (remove_char (CHR '']'') (remove_char (CHR ''['') (cell_text c))))
                           (column_dict, [])) (\<lambda>(column_dict, value_list).
                   bind (dict_get row ''unit'') (\<lambda>unit.
                   seq (logging INFO ''defined_as_list'' [i, column])
                     (ret (if unit \<noteq> CStr ''str'' then
                             dict_set column_dict i
                               (PDict [(''value'', PList value_list), (''unit'', cell_val unit)])
                           else dict_set column_dict i (PList value_list))))))
              else conversion L filename column_dict row i column c) (\<lambda>column_dict.
        ret (column_dict, asset_name_string)))))"

section \<open>The check of a storage column\<close>

definition set_loc :: "dataframe \<Rightarrow> string \<Rightarrow> string \<Rightarrow> cell \<Rightarrow> dataframe" where
  "set_loc d i column v =
     d\<lparr>rows := map (\<lambda>(j, r). if j = i then (j, dict_set r column v) else (j, r)) (rows d)\<rparr>"

text \<open>
  \<open>pd.isnull(df_copy.at[i, column])\<close>: a bool when the label \<open>i\<close> stands once in the
  index; for a repeated label \<open>at\<close> gives a Series, and the result is neither \<open>True\<close> nor
  \<open>False\<close> (\<open>None\<close> here).
\<close>

definition isnull_at :: "dataframe \<Rightarrow> string \<Rightarrow> string \<Rightarrow> bool option res" where
  "isnull_at d i column =
     (case filter (\<lambda>(j, r). j = i) (rows d) of
        [] \<Rightarrow> raise KeyError
      | [(j, r)] \<Rightarrow> bind (dict_get r column) (\<lambda>c. ret (Some (c = NaN)))
      | _ \<Rightarrow> ret None)"

definition storage_row_check ::
  "string \<Rightarrow> string \<Rightarrow> string list \<Rightarrow> dataframe \<Rightarrow> string \<Rightarrow> dataframe res" where
  "storage_row_check filename column column_parameters df_copy i =
     (if i \<notin> set column_parameters then
        (if i \<notin> set [''c_rate'', ''opex_var'', ''soc_initial'', ''soc_max'', ''soc_min''] then
           seq (logging WARNING ''storage_parameter_not_recognized'' [i, filename])
               (ret (set_loc df_copy i column (CStr ''NaN'')))
         else
           bind (isnull_at df_copy i column) (\<lambda>n.
             if n = Some False then
               seq (logging WARNING ''should_be_set_to_nan'' [i, column, filename])
                   (ret (set_loc df_copy i column (CStr ''NaN'')))
             else
               seq (logging DEBUG ''is_nan_correct'' [filename, i, column]) (ret df_copy)))
      else
        bind (isnull_at df_copy i column) (\<lambda>n.
          if n = Some True then
            seq (logging WARNING ''is_nan_set_to_0'' [filename, i, column])
                (ret (set_loc df_copy i column (CInt 0)))
          else ret df_copy))"

definition column_extra :: "string \<Rightarrow> string list option" where
  "column_extra column =
     (if column = ''storage capacity'' then Some [''soc_initial'', ''soc_max'', ''soc_min'']
      else if column = ''input power'' \<or> column = ''output power'' then
        Some [''c_rate'', ''opex_var'']
      else None)"

text \<open>
  The storage branch for one column. \<open>extra\<close> is the local variable of that name, unbound
  (\<open>None\<close>) until a column with a valid name has been seen. The loop over the set of missing
  parameters runs here in the order of \<open>column_parameters\<close> (Python fixes no order for a
  set). The result is \<open>df_copy\<close>, \<open>extra\<close> and the filtered frame \<open>df\<close>.
\<close>

definition storage_column ::
  "string \<Rightarrow> string \<Rightarrow> string list \<Rightarrow> dataframe \<times> string list option \<Rightarrow>
     (dataframe \<times> string list option \<times> dataframe) res" where
  "storage_column filename column parameters st =
     (case st of (df_copy, extra) \<Rightarrow>
        seq (if length (columns df_copy) < 4 \<or> length (columns df_copy) > 4 then
               logging ERROR ''requires_three_columns'' [filename]
             else ret ())
       (bind (case column_extra column of
                Some e \<Rightarrow> ret (Some e)
              | None \<Rightarrow> seq (logging ERROR ''column_name_not_valid'' [column, filename]) (ret extra))
          (\<lambda>extra.
        bind (case extra of
                None \<Rightarrow> raise UnboundLocalError
              | Some e \<Rightarrow> ret (parameters @ e)) (\<lambda>column_parameters.
        seq (log_each (\<lambda>i. logging WARNING ''parameter_missing_in_column'' [filename, i, column])
               (filter (\<lambda>i. i \<notin> set (index df_copy)) (remdups column_parameters)))
       (bind (foldM (storage_row_check filename column column_parameters) (index df_copy) df_copy)
          (\<lambda>df_copy.
        ret (df_copy, extra,
             df_copy\<lparr>rows := filter (\<lambda>(j, r). map_of r column \<noteq> Some NaN) (rows df_copy)\<rparr>)))))))"

section \<open>Files\<close>

text \<open>
  The file system: the text of each file by its path. \<open>join\<close> is \<open>os.path.join\<close> of
  two POSIX paths, \<open>listdir\<close> the names of the files that stand directly in a directory.
\<close>

type_synonym fs = "(string \<times> string) list"

definition path_exists :: "fs \<Rightarrow> string \<Rightarrow> bool" where
  "path_exists files p = (p \<in> fst ` set files)"

definition dir_prefix :: "string \<Rightarrow> string" where
  "dir_prefix d = (if d = [] \<or> last d = CHR ''/'' then d else d @ ''/'')"

definition join :: "string \<Rightarrow> string \<Rightarrow> string" where
  "join d name = (if prefix_of ''/'' name then name else dir_prefix d @ name)"

definition listdir :: "fs \<Rightarrow> string \<Rightarrow> string list" where
  "listdir files d =
     remdups (map (\<lambda>p. drop (length (dir_prefix d)) p)
       (filter (\<lambda>p. prefix_of (dir_prefix d) p
                    \<and> drop (length (dir_prefix d)) p \<noteq> []
                    \<and> CHR ''/'' \<notin> set (drop (length (dir_prefix d)) p))
          (map fst files)))"

text \<open>The loop that tries the separators of \<open>CSV_SEPARATORS\<close> in turn.\<close>

fun find_separator :: "pylib \<Rightarrow> fs \<Rightarrow> string \<Rightarrow> string list \<Rightarrow> dataframe res" where
  "find_separator L files path [] = raise ValueError"
| "find_separator L files path (sep # seps) =
     (case map_of files path of
        None \<Rightarrow> raise FileNotFoundError
      | Some text \<Rightarrow>
          (case read_csv L text sep of
             Inl e \<Rightarrow> raise e
           | Inr d \<Rightarrow> if length (columns d) > 0 then ret d else find_separator L files path seps))"

section \<open>create\_json\_from\_csv\<close>

text \<open>
  The check for \<open>maximumCap\<close>. \<open>parameters.append\<close> changes the list object that the
  caller passed; the result is the content of that object after the check.
\<close>

definition maximumCap_check :: "string \<Rightarrow> string list \<Rightarrow> dataframe \<Rightarrow> string list res" where
  "maximumCap_check filename parameters d =
     (if ''maximumCap'' \<in> set (index d) then ret (parameters @ [''maximumCap''])
      else seq (logging WARNING ''maximumCap_not_used'' [''maximumCap'', filename])
               (ret parameters))"

text \<open>
  \<open>list(set(xs) ^ set(ys))\<close>; Python fixes no order for it, here the names of \<open>xs\<close> come
  first.
\<close>

definition sym_diff_list :: "string list \<Rightarrow> string list \<Rightarrow> string list" where
  "sym_diff_list xs ys =
     filter (\<lambda>x. x \<notin> set ys) (remdups xs) @ filter (\<lambda>y. y \<notin> set xs) (remdups ys)"

definition parameter_check :: "string \<Rightarrow> string \<Rightarrow> string list \<Rightarrow> dataframe \<Rightarrow> unit res" where
  "parameter_check input_directory filename parameters d =
     log_each
       (\<lambda>i. if i \<in> set parameters then
               logging ERROR ''parameter_missing'' [filename, i, input_directory]
             else logging ERROR ''parameter_not_recognized'' [filename, i, input_directory])
       (sym_diff_list parameters (index d))"

text \<open>
  \<open>df.loc[label]\<close> as far as the module uses it: the row of a label that stands once. For
  a repeated label \<open>loc\<close> gives a frame, whose printed slice the module then takes for a
  file name; no such file is there and the \<open>update\<close> that follows raises.
\<close>

definition loc_row :: "dataframe \<Rightarrow> string \<Rightarrow> row res" where
  "loc_row d label =
     (case filter (\<lambda>(j, r). j = label) (rows d) of
        [] \<Rightarrow> raise KeyError
      | [(j, r)] \<Rightarrow> ret r
      | _ \<Rightarrow> raise TypeError)"

text \<open>The local variables that live across the columns of one table.\<close>

record loop_state =
  s_single_dict :: pydict
  s_asset_name_string :: string
  s_df :: dataframe
  s_df_copy :: dataframe
  s_extra :: "string list option"

text \<open>
  The body of \<open>for column in df_copy\<close>. \<open>storage_hook\<close> is the call of
  \<open>add_storage_components\<close> with the directory; it gives \<open>None\<close> where that function
  returns nothing, and \<open>dict.update(None)\<close> raises \<open>TypeError\<close>.
\<close>

definition do_column ::
  "pylib \<Rightarrow> (string \<Rightarrow> pydict option res) \<Rightarrow> string \<Rightarrow> string list \<Rightarrow> bool \<Rightarrow>
     loop_state \<Rightarrow> string \<Rightarrow> loop_state res" where
  "do_column L storage_hook filename parameters storage st column =
     (if column \<noteq> ''unit'' then
        bind (if storage then
                bind (storage_column filename column parameters (s_df_copy st, s_extra st))
                  (\<lambda>(df_copy, extra, d).
                     ret (st\<lparr>s_df := d, s_df_copy := df_copy, s_extra := extra\<rparr>))
              else ret st) (\<lambda>st.
        bind (foldM (process_row L filename column) (rows (s_df st))
                ([], s_asset_name_string st)) (\<lambda>(column_dict, asset_name_string).
        bind (if filename = ''energyStorage'' then
                bind (loc_row (s_df st) ''storage_filename'') (\<lambda>r.
                bind (dict_get r column) (\<lambda>c.
                  case c of
                    CStr s \<Rightarrow>
                      bind (storage_hook (drop_last 4 s)) (\<lambda>storage_dict.
                        case storage_dict of
                          None \<Rightarrow> raise TypeError
                        | Some sd \<Rightarrow> ret (dict_update column_dict sd))
                  | _ \<Rightarrow> raise TypeError))
              else ret column_dict) (\<lambda>column_dict.
        ret (st\<lparr>s_single_dict := dict_set (s_single_dict st) column (PDict column_dict),
                 s_asset_name_string := asset_name_string\<rparr>))))
      else ret st)"

text \<open>The function from the parameter check on, for the frame that was read.\<close>

definition convert_frame ::
  "pylib \<Rightarrow> (string \<Rightarrow> pydict option res) \<Rightarrow> string \<Rightarrow> string \<Rightarrow> string list \<Rightarrow> bool \<Rightarrow>
     dataframe \<Rightarrow> pydict res" where
  "convert_frame L storage_hook input_directory filename parameters storage d =
     seq (if \<not> storage then parameter_check input_directory filename parameters d else ret ())
    (seq (if length (columns d) = 1 then logging DEBUG ''no_assets_added'' [filename] else ret ())
    (bind (foldM (do_column L storage_hook filename parameters storage) (columns d)
             \<lparr>s_single_dict = [], s_asset_name_string = [], s_df = d, s_df_copy = d,
              s_extra = None\<rparr>) (\<lambda>st.
     seq (logging INFO ''assets_added'' [filename, drop_last 2 (s_asset_name_string st)])
         (ret (if filename \<in> set [''economic_data'', ''project_data'', ''simulation_settings'']
               then s_single_dict st
               else if storage then s_single_dict st
               else [(filename, PDict (s_single_dict st))])))))"

text \<open>
  The whole function for one call. The second component of the result is the content of
  the caller's \<open>parameters\<close> list after the call, also when the call raises.
\<close>

definition create_json_from_csv_body ::
  "pylib \<Rightarrow> string list \<Rightarrow> fs \<Rightarrow> (string \<Rightarrow> pydict option res) \<Rightarrow> string \<Rightarrow> string \<Rightarrow>
     string list \<Rightarrow> bool \<Rightarrow> pydict res \<times> string list" where
  "create_json_from_csv_body L CSV_SEPARATORS files storage_hook input_directory filename
       parameters storage =
     (case bind (find_separator L files (join input_directory (filename @ ''.csv''))
                   CSV_SEPARATORS)
             (\<lambda>d. bind (maximumCap_check filename parameters d) (\<lambda>ps. ret (d, ps))) of
        (Inl e, l) \<Rightarrow> ((Inl e, l), parameters)
      | (Inr (d, ps), l) \<Rightarrow>
          (bind (Inr (), l)
             (\<lambda>_. convert_frame L storage_hook input_directory filename ps storage d), ps))"

section \<open>add\_storage\_components\<close>

text \<open>
  \<open>create\<close> is the call \<open>create_json_from_csv(input_directory, filename=...,
  parameters=..., storage=True)\<close>. The list of common parameters is made anew by each call.
\<close>

definition add_storage_components ::
  "(string \<Rightarrow> string list \<Rightarrow> pydict res \<times> string list) \<Rightarrow> fs \<Rightarrow> string \<Rightarrow> string \<Rightarrow>
     pydict option res" where
  "add_storage_components create files storage_filename input_directory =
     (if \<not> path_exists files (join input_directory (storage_filename @ ''.csv'')) then
        seq (logging ERROR ''storage_file_missing'' [storage_filename]) (ret None)
      else
        bind (fst (create storage_filename
                     [''age_installed'', ''capex_fix'', ''capex_var'', ''efficiency'',
                      ''installedCap'', ''label'', ''lifetime'', ''opex_fix'', ''unit'']))
          (\<lambda>single_dict. ret (Some single_dict)))"

text \<open>
  The two functions call each other; the first argument bounds the depth of the nested
  calls, where Python raises \<open>RecursionError\<close> at its recursion limit.
\<close>

primrec create_json_from_csv ::
  "nat \<Rightarrow> pylib \<Rightarrow> string list \<Rightarrow> fs \<Rightarrow> string \<Rightarrow> string \<Rightarrow> string list \<Rightarrow> bool \<Rightarrow>
     pydict res \<times> string list" where
  "create_json_from_csv 0 L CSV_SEPARATORS files input_directory filename parameters storage =
     (raise RecursionError, parameters)"
| "create_json_from_csv (Suc n) L CSV_SEPARATORS files input_directory filename parameters
       storage =
     create_json_from_csv_body L CSV_SEPARATORS files
       (\<lambda>storage_filename.
          add_storage_components
            (\<lambda>f ps. create_json_from_csv n L CSV_SEPARATORS files input_directory f ps True)
            files storage_filename input_directory)
       input_directory filename parameters storage"

section \<open>create\_input\_json\<close>

text \<open>
  The constants of \<open>src.constants\<close> are parameters. \<open>REQUIRED_CSV_PARAMETERS\<close> is a dict
  of lists that \<open>create_json_from_csv\<close> may append to, so it is a state that the model
  passes on; each of its keys has a list object of its own.
\<close>

record config =
  CSV_FNAME :: string
  CSV_SEPARATORS :: "string list"
  REQUIRED_CSV_FILES :: "string list"

type_synonym rcp = "(string \<times> string list) list"

text \<open>The loop over \<open>os.listdir(input_directory)\<close>.\<close>

fun read_files ::
  "(string \<Rightarrow> string list \<Rightarrow> pydict res \<times> string list) \<Rightarrow> string list \<Rightarrow> string \<Rightarrow>
     string list \<Rightarrow> pydict \<times> string list \<Rightarrow> rcp \<Rightarrow> (pydict \<times> string list) res \<times> rcp" where
  "read_files create required input_directory [] st params = (ret st, params)"
| "read_files create required input_directory (f # fs) st params =
     (case st of (input_json, list_assets) \<Rightarrow>
      let filename = drop_last 4 f in
      if filename \<in> set required then
        (case map_of params filename of
           None \<Rightarrow> (raise KeyError, params)
         | Some parameters \<Rightarrow>
             (case create filename parameters of
                ((Inl e, l), ps) \<Rightarrow> ((Inl e, l), dict_set params filename ps)
              | ((Inr single_dict, l), ps) \<Rightarrow>
                  (case read_files create required input_directory fs
                          (dict_update input_json single_dict, list_assets @ [filename])
                          (dict_set params filename ps) of
                     (m, params') \<Rightarrow> (bind (Inr (), l) (\<lambda>_. m), params'))))
      else if substring ''storage_'' filename then
        read_files create required input_directory fs (input_json, list_assets @ [filename])
          params
      else
        (case read_files create required input_directory fs st params of
           (m, params') \<Rightarrow>
             (seq (logging ERROR ''file_not_recognized'' [f, input_directory]) m, params')))"

text \<open>The check that all required files are there.\<close>

definition files_check :: "string list \<Rightarrow> string \<Rightarrow> string list \<Rightarrow> unit res" where
  "files_check required input_directory list_assets =
     log_each
       (\<lambda>i. if i \<in> set required then
               logging ERROR ''required_file_missing'' [i, input_directory]
             else if substring ''storage_'' i then ret ()
             else logging DEBUG ''unknown_filename'' [i])
       (sym_diff_list list_assets required)"

text \<open>
  The result is what the function returns or raises, with its log, then the content of
  \<open>REQUIRED_CSV_PARAMETERS\<close> and the file system after the call.
\<close>

definition create_input_json ::
  "nat \<Rightarrow> pylib \<Rightarrow> config \<Rightarrow> fs \<Rightarrow> rcp \<Rightarrow> string \<Rightarrow> bool \<Rightarrow>
     string option res \<times> rcp \<times> fs" where
  "create_input_json depth L C files params input_directory pass_back =
     (let output_filename = join input_directory (CSV_FNAME C) in
      if path_exists files output_filename then
        (seq (logging INFO ''loading_and_converting'' [input_directory]) (raise FileExistsError),
         params, files)
      else
        (case read_files
                (\<lambda>filename parameters.
                   create_json_from_csv depth L (CSV_SEPARATORS C) files input_directory filename
                     parameters False)
                (REQUIRED_CSV_FILES C) input_directory (listdir files input_directory)
                ([], []) params of
           (m, params') \<Rightarrow>
             (case seq (logging INFO ''loading_and_converting'' [input_directory])
                     (bind m (\<lambda>(input_json, list_assets).
                        seq (files_check (REQUIRED_CSV_FILES C) input_directory list_assets)
                            (ret input_json))) of
                (Inl e, l) \<Rightarrow> ((Inl e, l), params', files)
              | (Inr input_json, l) \<Rightarrow>
                  (bind (Inr (), l) (\<lambda>_.
                     seq (logging INFO ''json_file_created'' [output_filename])
                    (seq (logging DEBUG ''json_created'' [])
                         (ret (if pass_back then Some output_filename else None)))),
                   params',
                   dict_set files output_filename (json_dump L (PDict input_json))))))"

section \<open>compare\_input\_parameters\_with\_reference\<close>

text \<open>
  The constants of \<open>utils.constants\<close> and \<open>utils.constants_json_strings\<close> are parameters.
  An entry of \<open>KNOWN_EXTRA_PARAMETERS\<close> holds a unit, a default value and a warning text.
  \<open>non_asset_groups\<close> is the list \<open>[PROJECT_DATA, ECONOMIC_DATA, SIMULATION_SETTINGS,
  CONSTRAINTS, FIX_COST]\<close> and \<open>asset_groups\<close> the list \<open>[ENERGY_CONSUMPTION, ...,
  ENERGY_PROVIDERS]\<close> of the source.
\<close>

record known_extra =
  ke_unit :: pyval
  ke_default :: pyval
  ke_warning :: string

record mvs_constants =
  JSON_EXT :: string
  CSV_EXT :: string
  REQUIRED_MVS_PARAMETERS :: "(string \<times> (string \<times> string list option) list) list"
  KNOWN_EXTRA_PARAMETERS :: "(string \<times> known_extra) list"
  MISSING_PARAMETERS_KEY :: string
  EXTRA_PARAMETERS_KEY :: string
  UNIT :: string
  VALUE :: string
  non_asset_groups :: "string list"
  asset_groups :: "string list"

text \<open>
  A loop whose body changes objects of the caller: when a pass raises, what the passes
  before have written stays written. A pass gives the exception (if any), its log and the
  state after it.
\<close>

type_synonym 's eff = "(pyerr option \<times> diag list) \<times> 's"

fun foldS :: "('s \<Rightarrow> 'a \<Rightarrow> 's eff) \<Rightarrow> 'a list \<Rightarrow> 's \<Rightarrow> 's eff" where
  "foldS f [] s = ((None, []), s)"
| "foldS f (x # xs) s =
     (case f s x of
        ((Some e, l), s') \<Rightarrow> ((Some e, l), s')
      | ((None, l), s') \<Rightarrow> (case foldS f xs s' of ((r, l'), s'') \<Rightarrow> ((r, l @ l'), s'')))"

text \<open>A pass that writes nothing when it raises.\<close>

definition atomic :: "'s res \<Rightarrow> 's \<Rightarrow> 's eff" where
  "atomic m s = (case m of (Inl e, l) \<Rightarrow> ((Some e, l), s) | (Inr s', l) \<Rightarrow> ((None, l), s'))"

text \<open>
  The local variable \<open>sub_params\<close>: the dict \<open>{"non-asset": main_parameters[g].keys()}\<close>,
  whose value is a view of the keys of the group \<open>g\<close>, or the object \<open>main_parameters[g]\<close>
  itself. Both follow what is written into the group later.
\<close>

datatype sub_params_ref = NonAssetOf string | AssetsOf string

record cmp_state =
  main_parameters :: pydict
  missing_parameters :: "(string \<times> string list option) list"
  extra_parameters :: "(string \<times> string list) list"
  sub_params :: "sub_params_ref option"

text \<open>
  \<open>set(x)\<close> as a list of names, for a dict (its keys), a string (its characters) and a
  list of strings. A list that holds anything else than strings is not part of the model.
\<close>

fun is_str :: "pyval \<Rightarrow> bool" where
  "is_str (PStr s) = True"
| "is_str _ = False"

fun str_of :: "pyval \<Rightarrow> string" where
  "str_of (PStr s) = s"
| "str_of _ = []"

fun names_of :: "pyval \<Rightarrow> string list res" where
  "names_of (PDict d) = ret (map fst d)"
| "names_of (PStr s) = ret (map (\<lambda>c. [c]) s)"
| "names_of (PList xs) = (if list_all is_str xs then ret (map str_of xs) else raise TypeError)"
| "names_of _ = raise TypeError"

text \<open>The node \<open>{UNIT: ..., VALUE: ...}\<close> of a default value.\<close>

definition default_node :: "mvs_constants \<Rightarrow> known_extra \<Rightarrow> pyval" where
  "default_node C ke =
     PDict (dict_set (dict_set [] (UNIT C) (ke_unit ke)) (VALUE C) (ke_default ke))"

text \<open>
  The two assignments \<open>main_parameters[mp][sp] = ...\<close> and
  \<open>main_parameters[mp][k][sp] = ...\<close>, each with its warning.
\<close>

definition set_default_value ::
  "mvs_constants \<Rightarrow> string \<Rightarrow> string \<Rightarrow> string \<Rightarrow> known_extra \<Rightarrow> pydict \<Rightarrow> pydict res" where
  "set_default_value C mp k sp ke main =
     bind (dict_get main mp) (\<lambda>g.
       case g of
         PDict gd \<Rightarrow>
           if k = ''non-asset'' then
             seq (logging WARNING ''default_value_set'' [sp, mp])
                 (ret (dict_set main mp (PDict (dict_set gd sp (default_node C ke)))))
           else
             bind (dict_get gd k) (\<lambda>a.
               case a of
                 PDict ad \<Rightarrow>
                   seq (logging WARNING ''default_value_set_for_asset'' [sp, k, mp])
                       (ret (dict_set main mp
                               (PDict (dict_set gd k (PDict (dict_set ad sp (default_node C ke)))))))
               | _ \<Rightarrow> raise TypeError)
       | _ \<Rightarrow> raise TypeError)"

text \<open>\<open>d.get(k, [])\<close>.\<close>

definition get_or_empty :: "(string \<times> 'a list) list \<Rightarrow> string \<Rightarrow> 'a list" where
  "get_or_empty d k = (case map_of d k of None \<Rightarrow> [] | Some xs \<Rightarrow> xs)"

definition get_missing :: "(string \<times> string list option) list \<Rightarrow> string \<Rightarrow> string list res" where
  "get_missing d k =
     (case map_of d k of
        None \<Rightarrow> ret []
      | Some None \<Rightarrow> raise AttributeError
      | Some (Some xs) \<Rightarrow> ret xs)"

text \<open>The body of \<open>for sp in not_matching_params\<close>.\<close>

definition reconcile_param ::
  "mvs_constants \<Rightarrow> bool \<Rightarrow> string \<Rightarrow> string list \<Rightarrow> string \<Rightarrow> cmp_state \<Rightarrow> string \<Rightarrow>
     cmp_state res" where
  "reconcile_param C set_default mp required k st sp =
     (if sp \<in> set required then
        (if sp \<in> fst ` set (KNOWN_EXTRA_PARAMETERS C) \<and> set_default then
           bind (dict_get (KNOWN_EXTRA_PARAMETERS C) sp) (\<lambda>ke.
           bind (set_default_value C mp k sp ke (main_parameters st)) (\<lambda>m.
           ret (st\<lparr>main_parameters := m\<rparr>)))
         else
           bind (get_missing (missing_parameters st) mp) (\<lambda>param_list.
           ret (st\<lparr>missing_parameters :=
                       dict_set (missing_parameters st) mp (Some (param_list @ [sp]))\<rparr>)))
      else
        (if sp \<notin> set (get_or_empty (extra_parameters st) mp) then
           ret (st\<lparr>extra_parameters :=
                       dict_set (extra_parameters st) mp
                         (get_or_empty (extra_parameters st) mp @ [sp])\<rparr>)
         else ret st))"

text \<open>
  The body of \<open>for k in sub_params\<close>, with the value \<open>sub_parameters = sub_params[k]\<close>
  already read. \<open>required\<close> is \<open>required_parameters[mp]\<close>.
\<close>

definition compare_sub_parameters ::
  "mvs_constants \<Rightarrow> bool \<Rightarrow> string \<Rightarrow> string list option \<Rightarrow> string \<Rightarrow> pyval \<Rightarrow>
     cmp_state \<Rightarrow> cmp_state eff" where
  "compare_sub_parameters C set_default mp required k sub_parameters st =
     (case required of
        None \<Rightarrow> ((None, []), st)
      | Some rs \<Rightarrow>
          (case names_of sub_parameters of
             (Inl e, l) \<Rightarrow> ((Some e, l), st)
           | (Inr names, l) \<Rightarrow>
               foldS (\<lambda>s sp. atomic (reconcile_param C set_default mp rs k s sp) s)
                 (sym_diff_list names rs) st))"

text \<open>One pass after the other, as long as none raises.\<close>

definition then_eff :: "'s eff \<Rightarrow> ('s \<Rightarrow> 's eff) \<Rightarrow> 's eff" where
  "then_eff m f =
     (case m of
        ((Some e, l), s) \<Rightarrow> ((Some e, l), s)
      | ((None, l), s) \<Rightarrow> (case f s of ((r, l'), s') \<Rightarrow> ((r, l @ l'), s')))"

text \<open>
  What \<open>for k in sub_params\<close> runs over. A dict gives its keys. An empty list or string
  gives nothing; a list of strings or a string that is not empty raises at the first
  \<open>sub_params[k]\<close>, and so does a value that cannot be iterated.
\<close>

definition sub_params_keys :: "pydict \<Rightarrow> sub_params_ref \<Rightarrow> string list res" where
  "sub_params_keys main r =
     (case r of
        NonAssetOf g \<Rightarrow> ret [''non-asset'']
      | AssetsOf g \<Rightarrow>
          bind (dict_get main g) (\<lambda>v.
            case v of
              PDict d \<Rightarrow> ret (map fst d)
            | PList [] \<Rightarrow> ret []
            | PStr [] \<Rightarrow> ret []
            | _ \<Rightarrow> raise TypeError))"

text \<open>\<open>sub_params[k]\<close>: the view of the keys of the group, or the value of the asset.\<close>

definition sub_params_value :: "pydict \<Rightarrow> sub_params_ref \<Rightarrow> string \<Rightarrow> pyval res" where
  "sub_params_value main r k =
     (case r of
        NonAssetOf g \<Rightarrow>
          bind (dict_get main g) (\<lambda>v. bind (names_of v) (\<lambda>ns. ret (PList (map PStr ns))))
      | AssetsOf g \<Rightarrow>
          bind (dict_get main g) (\<lambda>v.
            case v of
              PDict d \<Rightarrow> dict_get d k
            | _ \<Rightarrow> raise TypeError))"

text \<open>
  The number of keys of the dict that the loop runs over; Python raises \<open>RuntimeError\<close>
  at the next step of the loop when it has changed.
\<close>

definition iterated_size :: "pydict \<Rightarrow> sub_params_ref \<Rightarrow> nat option" where
  "iterated_size main r =
     (case r of
        NonAssetOf g \<Rightarrow> None
      | AssetsOf g \<Rightarrow> (case map_of main g of Some (PDict d) \<Rightarrow> Some (length d) | _ \<Rightarrow> None))"

definition sub_params_step ::
  "mvs_constants \<Rightarrow> bool \<Rightarrow> string \<Rightarrow> string list option \<Rightarrow> sub_params_ref \<Rightarrow> nat option \<Rightarrow>
     cmp_state \<Rightarrow> string \<Rightarrow> cmp_state eff" where
  "sub_params_step C set_default mp required r size0 st k =
     (case sub_params_value (main_parameters st) r k of
        (Inl e, l) \<Rightarrow> ((Some e, l), st)
      | (Inr sub_parameters, l) \<Rightarrow>
          then_eff (compare_sub_parameters C set_default mp required k sub_parameters st)
            (\<lambda>st'. if iterated_size (main_parameters st') r \<noteq> size0
                    then ((Some RuntimeError, []), st') else ((None, []), st')))"

text \<open>The body of \<open>for mp in main_parameters\<close>, for \<open>ext == JSON_EXT\<close>.\<close>

definition choose_sub_params :: "mvs_constants \<Rightarrow> string \<Rightarrow> cmp_state \<Rightarrow> cmp_state res" where
  "choose_sub_params C mp st =
     (if mp \<in> set (non_asset_groups C) then
        bind (dict_get (main_parameters st) mp) (\<lambda>v.
          case v of
            PDict d \<Rightarrow> ret (st\<lparr>sub_params := Some (NonAssetOf mp)\<rparr>)
          | _ \<Rightarrow> raise AttributeError)
      else if mp \<in> set (asset_groups C) then ret (st\<lparr>sub_params := Some (AssetsOf mp)\<rparr>)
      else ret st)"

definition compare_group ::
  "mvs_constants \<Rightarrow> bool \<Rightarrow> (string \<times> string list option) list \<Rightarrow> cmp_state \<Rightarrow> string \<Rightarrow>
     cmp_state eff" where
  "compare_group C set_default required_parameters st mp =
     (case map_of required_parameters mp of
        None \<Rightarrow> ((None, []), st\<lparr>extra_parameters := dict_set (extra_parameters st) mp []\<rparr>)
      | Some required \<Rightarrow>
          then_eff (atomic (choose_sub_params C mp st) st) (\<lambda>st.
            case sub_params st of
              None \<Rightarrow> ((Some UnboundLocalError, []), st)
            | Some r \<Rightarrow>
                (case sub_params_keys (main_parameters st) r of
                   (Inl e, l) \<Rightarrow> ((Some e, l), st)
                 | (Inr ks, l) \<Rightarrow>
                     foldS (sub_params_step C set_default mp required r
                              (iterated_size (main_parameters st) r)) ks st)))"

text \<open>The last loop: a required group that is not provided is missing as a whole.\<close>

definition missing_groups ::
  "(string \<times> string list option) list \<Rightarrow> pydict \<Rightarrow> (string \<times> string list option) list \<Rightarrow>
     (string \<times> string list option) list" where
  "missing_groups required_parameters main missing =
     foldl (\<lambda>m (mp, required). if mp \<notin> fst ` set main then dict_set m mp required else m)
       missing required_parameters"

type_synonym answer = "(string \<times> (string \<times> string list option) list) list"

definition make_answer ::
  "mvs_constants \<Rightarrow> (string \<times> string list option) list \<Rightarrow> (string \<times> string list) list \<Rightarrow> answer" where
  "make_answer C missing extra =
     (let a = (if length missing > 0 then dict_set [] (MISSING_PARAMETERS_KEY C) missing else [])
      in if length extra > 0 then
           dict_set a (EXTRA_PARAMETERS_KEY C) (map (\<lambda>(mp, xs). (mp, Some xs)) extra)
         else a)"

definition warn_missing_parameters :: "mvs_constants \<Rightarrow> answer \<Rightarrow> unit res" where
  "warn_missing_parameters C comparison_with_reference =
     (if MISSING_PARAMETERS_KEY C \<in> fst ` set comparison_with_reference
      then raise MissingParameterError else ret ())"

text \<open>
  The function for a call whose first argument is the dict of the parameters. The caller's
  dict is a tree (no object stands at two places of it). The second component of the
  result is the caller's dict after the call.
\<close>

definition compare_input_parameters_with_reference ::
  "mvs_constants \<Rightarrow> pydict \<Rightarrow> string \<Rightarrow> bool \<Rightarrow> bool \<Rightarrow> answer res \<times> pydict" where
  "compare_input_parameters_with_reference C folder_path ext flag_missing set_default =
     (if ext = JSON_EXT C then
        (case map_of (REQUIRED_MVS_PARAMETERS C) ext of
           None \<Rightarrow> (raise KeyError, folder_path)
         | Some required_parameters \<Rightarrow>
             (case foldS (compare_group C set_default required_parameters) (map fst folder_path)
                     \<lparr>main_parameters = folder_path, missing_parameters = [],
                      extra_parameters = [], sub_params = None\<rparr> of
                ((Some e, l), st) \<Rightarrow> ((Inl e, l), main_parameters st)
              | ((None, l), st) \<Rightarrow>
                  (let answer = make_answer C
                         (missing_groups required_parameters (main_parameters st)
                            (missing_parameters st))
                         (extra_parameters st)
                   in (bind (Inr (), l) (\<lambda>_.
                         seq (if flag_missing then warn_missing_parameters C answer else ret ())
                             (ret answer)),
                       main_parameters st))))
      else if ext = CSV_EXT C then (raise TypeError, folder_path)
      else
        (case map_of (REQUIRED_MVS_PARAMETERS C) ext of
           None \<Rightarrow> (raise KeyError, folder_path)
         | Some required_parameters \<Rightarrow> (raise UnboundLocalError, folder_path)))"

section \<open>Notions for the statements and the proofs\<close>

text \<open>
  The names that an answer of \<open>compare_input_parameters_with_reference\<close> lists for a
  group under one of its two keys.
\<close>

definition reported :: "answer \<Rightarrow> string \<Rightarrow> string \<Rightarrow> string list" where
  "reported a key mp =
     (case map_of a key of
        None \<Rightarrow> []
      | Some m \<Rightarrow> (case map_of m mp of Some (Some xs) \<Rightarrow> xs | _ \<Rightarrow> []))"

definition listed :: "(string \<times> string list option) list \<Rightarrow> string \<Rightarrow> string list" where
  "listed m mp = (case map_of m mp of Some (Some xs) \<Rightarrow> xs | _ \<Rightarrow> [])"

text \<open>A pass over the group \<open>mp\<close> leaves the entries of every other group as they were.\<close>

definition others_kept :: "string \<Rightarrow> cmp_state \<Rightarrow> cmp_state \<Rightarrow> bool" where
  "others_kept mp st st' =
     (map fst (main_parameters st') = map fst (main_parameters st)
      \<and> (\<forall>g. g \<noteq> mp \<longrightarrow>
            map_of (main_parameters st') g = map_of (main_parameters st) g
          \<and> map_of (missing_parameters st') g = map_of (missing_parameters st) g
          \<and> map_of (extra_parameters st') g = map_of (extra_parameters st) g))"

text \<open>No name of a known extra parameter stands in a list of missing parameters.\<close>

definition no_known_missing :: "mvs_constants \<Rightarrow> cmp_state \<Rightarrow> bool" where
  "no_known_missing C st =
     (\<forall>g xs. map_of (missing_parameters st) g = Some (Some xs) \<longrightarrow>
        set xs \<inter> fst ` set (KNOWN_EXTRA_PARAMETERS C) = {})"


section \<open>Example inputs\<close>

text \<open>
  Three small tables, and a \<open>read_csv\<close> that knows their texts: a production table with
  a \<open>maximumCap\<close> row, the table \<open>energyStorage\<close> with one storage, and the table of
  that storage, whose \<open>soc_min\<close> cell is empty in the column \<open>storage capacity\<close>.
\<close>

definition production_frame :: dataframe where
  "production_frame =
     \<lparr>columns = [''unit'', ''pv_plant''],
      rows = [(''label'', [(''unit'', CStr ''str''), (''pv_plant'', CStr ''PV plant'')]),
              (''installedCap'', [(''unit'', CStr ''kWp''), (''pv_plant'', CStr ''10'')]),
              (''maximumCap'', [(''unit'', CStr ''kWp''), (''pv_plant'', CStr ''None'')])]\<rparr>"

definition energyStorage_frame :: dataframe where
  "energyStorage_frame =
     \<lparr>columns = [''unit'', ''storage_01''],
      rows = [(''label'', [(''unit'', CStr ''str''), (''storage_01'', CStr ''Battery'')]),
              (''storage_filename'',
                 [(''unit'', CStr ''str''), (''storage_01'', CStr ''storage_01.csv'')])]\<rparr>"

definition storage_frame :: dataframe where
  "storage_frame =
     \<lparr>columns = [''unit'', ''storage capacity'', ''input power'', ''output power''],
      rows = [(''label'', [(''unit'', CStr ''str''), (''storage capacity'', CStr ''cap''),
                           (''input power'', CStr ''in''), (''output power'', CStr ''out'')]),
              (''soc_min'', [(''unit'', CStr ''factor''), (''storage capacity'', NaN),
                             (''input power'', NaN), (''output power'', NaN)]),
              (''c_rate'', [(''unit'', CStr ''factor''), (''storage capacity'', NaN),
                            (''input power'', CStr ''1''), (''output power'', CStr ''1'')])]\<rparr>"

definition example_read_csv :: "string \<Rightarrow> string \<Rightarrow> pyerr + dataframe" where
  "example_read_csv text sep =
     (if sep \<noteq> '','' then Inr \<lparr>columns = [], rows = []\<rparr>
      else if text = ''production'' then Inr production_frame
      else if text = ''energyStorage'' then Inr energyStorage_frame
      else if text = ''storage'' then Inr storage_frame
      else Inr \<lparr>columns = [], rows = []\<rparr>)"

definition example_lib :: pylib where
  "example_lib =
     \<lparr>json_loads = (\<lambda>s. None), float_ok = (\<lambda>s. False), read_csv = example_read_csv,
      json_dump = (\<lambda>v. ''{}'')\<rparr>"

definition example_config :: config where
  "example_config =
     \<lparr>CSV_FNAME = ''mvs_csv_config.json'', CSV_SEPARATORS = ['','', '';''],
      REQUIRED_CSV_FILES = [''energyProduction'']\<rparr>"

definition example_files :: fs where
  "example_files = [(''inputs/energyProduction.csv'', ''production'')]"

text \<open>
  Constants for \<open>compare_input_parameters_with_reference\<close> with one group of project
  parameters and one group of assets, and a dict of parameters for them.
\<close>

definition example_constants :: mvs_constants where
  "example_constants =
     \<lparr>JSON_EXT = ''json'', CSV_EXT = ''csv'',
      REQUIRED_MVS_PARAMETERS =
        [(''json'', [(''economic_data'', Some [''a'', ''b'', ''c'']),
                     (''energyProduction'', Some [''label'', ''maximumCap''])]),
         (''csv'', [])],
      KNOWN_EXTRA_PARAMETERS =
        [(''maximumCap'', \<lparr>ke_unit = PStr ''None or float'', ke_default = PNone,
                           ke_warning = ''allows setting a maximum capacity''\<rparr>),
         (''c'', \<lparr>ke_unit = PStr ''factor'', ke_default = PInt 0,
                  ke_warning = ''is a new parameter''\<rparr>)],
      MISSING_PARAMETERS_KEY = ''missing_parameters'',
      EXTRA_PARAMETERS_KEY = ''extra_parameters'',
      UNIT = ''unit'', VALUE = ''value'',
      non_asset_groups = [''project_data'', ''economic_data'', ''simulation_settings'',
                          ''constraints'', ''fixcost''],
      asset_groups = [''energyConsumption'', ''energyConversion'', ''energyProduction'',
                      ''energyStorage'', ''energyBusses'', ''energyProviders'']\<rparr>"

definition example_parameters :: pydict where
  "example_parameters =
     [(''economic_data'',
         PDict [(''a'', PDict [(''value'', PInt 1), (''unit'', PStr ''factor'')]),
                (''b'', PDict [(''value'', PInt 2), (''unit'', PStr ''factor'')]),
                (''d'', PDict [(''value'', PInt 4), (''unit'', PStr ''factor'')])]),
      (''energyProduction'',
         PDict [(''pv_plant'', PDict [(''label'', PStr ''PV plant'')])])]"

section \<open>Basic facts\<close>

lemma bind_ret [simp]: "bind (ret x) f = f x"
  by (cases "f x") (simp add: bind_def ret_def)

lemma bind_raise [simp]: "bind (raise e) f = raise e"
  by (simp add: bind_def raise_def)

lemma bind_Inr [simp]: "bind (Inr x, l) f = (fst (f x), l @ snd (f x))"
  by (simp add: bind_def split: prod.splits)

lemma bind_Inl [simp]: "bind (Inl e, l) f = (Inl e, l)"
  by (simp add: bind_def)

lemma fst_ret [simp]: "fst (ret x) = Inr x" and snd_ret [simp]: "snd (ret x) = []"
  by (simp_all add: ret_def)

lemma seq_logging [simp]: "seq (logging lv t a) k = (fst k, Log lv t a # snd k)"
  by (simp add: seq_def logging_def)

lemma seq_logging_ret [simp]: "seq (logging lv t a) (ret x) = (Inr x, [Log lv t a])"
  by (simp add: seq_def bind_def logging_def ret_def)

lemma seq_ret [simp]: "seq (ret ()) k = k"
  by (simp add: seq_def)

lemma dict_set_twice [simp]: "dict_set (dict_set d k v) k w = dict_set d k w"
  by (induction d) auto

lemma map_of_dict_set: "map_of (dict_set d k v) = (map_of d)(k \<mapsto> v)"
  by (induction d) auto

lemma dict_set_key: "k \<in> fst ` set (dict_set d k v)"
  by (simp add: map_of_dict_set dom_map_of_conv_image_fst [symmetric])

lemma dict_get_Some [simp]: "map_of d k = Some v \<Longrightarrow> dict_get d k = ret v"
  by (simp add: dict_get_def)

lemma dict_get_None [simp]: "map_of d k = None \<Longrightarrow> dict_get d k = raise KeyError"
  by (simp add: dict_get_def)

section \<open>Cells with one bracket or one brace\<close>

text \<open>
  C1, as the code has it: a cell that holds exactly one of the characters \<open>[\<close> and \<open>]\<close>
  is logged with a warning and left out of the record of its column: \<open>column_dict\<close>
  comes back as it was, no exception is raised. The same holds for a cell without
  brackets that holds exactly one of \<open>{\<close> and \<open>}\<close>. (For the row \<open>label\<close> the text of
  the cell is still added to the names of the assets.)
\<close>

theorem unbalanced_cell_left_out:
  assumes "map_of row column = Some (CStr s)"
  shows "((CHR ''['' \<in> set s) \<noteq> (CHR '']'' \<in> set s) \<longrightarrow>
            process_row L filename column (column_dict, names) (i, row) =
              (Inr (column_dict, if i = ''label'' then names @ s @ '', '' else names),
               [Log WARNING ''bracket_missing'' [filename, column, i]]))
       \<and> (CHR ''['' \<notin> set s \<and> CHR '']'' \<notin> set s \<and> (CHR ''{'' \<in> set s) \<noteq> (CHR ''}'' \<in> set s) \<longrightarrow>
            process_row L filename column (column_dict, names) (i, row) =
              (Inr (column_dict, if i = ''label'' then names @ s @ '', '' else names),
               [Log WARNING ''brace_missing'' [filename, column, i]]))"
  using assms by (auto simp: process_row_def conversion_def ret_def)

theorem unbalanced_cell_left_out_witness:
  "process_row example_lib ''energyConversion'' ''transformer'' ([], [])
       (''efficiency'', [(''unit'', CStr ''factor''), (''transformer'', CStr ''{1;2'')]) =
     (Inr ([], []), [Log WARNING ''brace_missing'' [''energyConversion'', ''transformer'', ''efficiency'']])"
  using unbalanced_cell_left_out [of "[(''unit'', CStr ''factor''), (''transformer'', CStr ''{1;2'')]"
      "''transformer''" "''{1;2''" example_lib "''energyConversion''" "[]" "[]" "''efficiency''"]
  by simp

text \<open>
  The cell \<open>[1;2\<close> gives an empty record, not a record with the text of the cell.
\<close>

theorem unbalanced_bracket_counterexample:
  "process_row example_lib ''energyConversion'' ''transformer'' ([], [])
       (''efficiency'', [(''unit'', CStr ''factor''), (''transformer'', CStr ''[1;2'')]) =
     (Inr ([], []), [Log WARNING ''bracket_missing'' [''energyConversion'', ''transformer'', ''efficiency'']])"
  by (simp add: process_row_def ret_def)

section \<open>Lists\<close>

text \<open>
  C7: the cell \<open>[1;2;3]\<close> in a row with the unit \<open>factor\<close> gives the entry whose value is
  the list of the three integers 1, 2, 3 and whose unit is \<open>factor\<close>. Each item is
  converted by \<open>conversion\<close> with the unit of the row before its value is put into the list.
\<close>

theorem list_cell_three_scalars:
  assumes "map_of row column = Some (CStr ''[1;2;3]'')"
    and "map_of row ''unit'' = Some (CStr ''factor'')"
  shows "process_row L filename column (column_dict, names) (i, row) =
           (Inr (dict_set column_dict i
                   (PDict [(''value'', PList [PInt 1, PInt 2, PInt 3]), (''unit'', PStr ''factor'')]),
                 if i = ''label'' then names @ ''[1;2;3], '' else names),
            [Log INFO ''defined_as_list'' [i, column]])"
  using assms
  by (simp add: process_row_def remove_char_def list_item_def conversion_def map_of_dict_set
      py_int_def strip_def is_space_def is_digit_def digit_val_def ret_def)

theorem list_cell_three_scalars_witness:
  "process_row example_lib ''energyConversion'' ''transformer'' ([], [])
       (''efficiency'', [(''unit'', CStr ''factor''), (''transformer'', CStr ''[1;2;3]'')]) =
     (Inr ([(''efficiency'',
             PDict [(''value'', PList [PInt 1, PInt 2, PInt 3]), (''unit'', PStr ''factor'')])], []),
      [Log INFO ''defined_as_list'' [''efficiency'', ''transformer'']])"
  using list_cell_three_scalars [of "[(''unit'', CStr ''factor''), (''transformer'', CStr ''[1;2;3]'')]"
      "''transformer''" example_lib "''energyConversion''" "[]" "[]" "''efficiency''"]
  by simp

section \<open>Booleans\<close>




section \<open>The file that is already there\<close>

text \<open>
  C5: if a file stands at the destination \<open>input_directory/CSV_FNAME\<close>,
  \<open>create_input_json\<close> raises \<open>FileExistsError\<close> and the file system is as it was: nothing
  is read or written before. So a second call after a call that wrote the file raises, and
  the file of the first call is unchanged.
\<close>

theorem existing_artifact_refused:
  "(path_exists files (join input_directory (CSV_FNAME C)) \<longrightarrow>
      create_input_json depth L C files params input_directory pass_back =
        ((Inl FileExistsError, [Log INFO ''loading_and_converting'' [input_directory]]),
         params, files))
   \<and> (create_input_json depth L C files params input_directory pass_back =
        ((Inr r, l), params', files') \<longrightarrow>
      create_input_json depth' L' C files' params' input_directory pass_back' =
        ((Inl FileExistsError, [Log INFO ''loading_and_converting'' [input_directory]]),
         params', files'))"
proof -
  have first: "create_input_json d M C fl ps input_directory pb =
        ((Inl FileExistsError, [Log INFO ''loading_and_converting'' [input_directory]]), ps, fl)"
    if "path_exists fl (join input_directory (CSV_FNAME C))" for d M fl ps pb
    using that by (simp add: create_input_json_def raise_def)
  have second: "path_exists files' (join input_directory (CSV_FNAME C))"
    if "create_input_json depth L C files params input_directory pass_back =
          ((Inr r, l), params', files')"
    using that
    by (auto simp: create_input_json_def Let_def raise_def path_exists_def dict_set_key
        split: if_splits prod.splits sum.splits)
  show ?thesis using first second by blast
qed

theorem existing_artifact_refused_witness:
  "create_input_json 3 example_lib example_config example_files
       [(''energyProduction'', [''label'', ''installedCap''])] ''inputs'' True =
     ((Inr (Some ''inputs/mvs_csv_config.json''),
       [Log INFO ''loading_and_converting'' [''inputs''],
        Log INFO ''assets_added'' [''energyProduction'', ''PV plant''],
        Log INFO ''json_file_created'' [''inputs/mvs_csv_config.json''],
        Log DEBUG ''json_created'' []]),
      [(''energyProduction'', [''label'', ''installedCap'', ''maximumCap''])],
      [(''inputs/energyProduction.csv'', ''production''),
       (''inputs/mvs_csv_config.json'', ''{}'')])
   \<and> path_exists [(''inputs/energyProduction.csv'', ''production''),
                   (''inputs/mvs_csv_config.json'', ''{}'')]
         (join ''inputs'' (CSV_FNAME example_config))
   \<and> create_input_json 3 example_lib example_config
       [(''inputs/energyProduction.csv'', ''production''),
        (''inputs/mvs_csv_config.json'', ''{}'')]
       [(''energyProduction'', [''label'', ''installedCap'', ''maximumCap''])] ''inputs'' True =
     ((Inl FileExistsError, [Log INFO ''loading_and_converting'' [''inputs'']]),
      [(''energyProduction'', [''label'', ''installedCap'', ''maximumCap''])],
      [(''inputs/energyProduction.csv'', ''production''),
       (''inputs/mvs_csv_config.json'', ''{}'')])"
proof -
  have run: "create_input_json 3 example_lib example_config example_files
       [(''energyProduction'', [''label'', ''installedCap''])] ''inputs'' True =
     ((Inr (Some ''inputs/mvs_csv_config.json''),
       [Log INFO ''loading_and_converting'' [''inputs''],
        Log INFO ''assets_added'' [''energyProduction'', ''PV plant''],
        Log INFO ''json_file_created'' [''inputs/mvs_csv_config.json''],
        Log DEBUG ''json_created'' []]),
      [(''energyProduction'', [''label'', ''installedCap'', ''maximumCap''])],
      [(''inputs/energyProduction.csv'', ''production''),
       (''inputs/mvs_csv_config.json'', ''{}'')])"
    by code_simp
  have there: "path_exists [(''inputs/energyProduction.csv'', ''production''),
                   (''inputs/mvs_csv_config.json'', ''{}'')]
         (join ''inputs'' (CSV_FNAME example_config))"
    by code_simp
  show ?thesis
    using run there
      existing_artifact_refused [of example_files "''inputs''" example_config 3 example_lib
        "[(''energyProduction'', [''label'', ''installedCap''])]" True
        "Some ''inputs/mvs_csv_config.json''" _ _ _ 3 example_lib True]
    by blast
qed

section \<open>The list of required parameters\<close>

text \<open>
  C4, as the code has it: when the table can be read and its index holds \<open>maximumCap\<close>,
  the call appends that name to the list that the caller passed, so the caller's list
  is longer after the call; when the index does not hold it, the list is unchanged and a
  warning is logged.
\<close>

theorem maximumCap_appended_in_place:
  assumes "find_separator L files (join input_directory (filename @ ''.csv'')) seps = (Inr d, l)"
  shows "snd (create_json_from_csv (Suc n) L seps files input_directory filename parameters
                storage) =
           (if ''maximumCap'' \<in> set (index d) then parameters @ [''maximumCap'']
            else parameters)
       \<and> (''maximumCap'' \<notin> set (index d) \<longrightarrow>
            Log WARNING ''maximumCap_not_used'' [''maximumCap'', filename]
              \<in> set (snd (fst (create_json_from_csv (Suc n) L seps files input_directory
                                   filename parameters storage))))"
  using assms by (simp add: create_json_from_csv_body_def maximumCap_check_def ret_def)

theorem maximumCap_appended_in_place_witness:
  "find_separator example_lib example_files (join ''inputs'' (''energyProduction'' @ ''.csv''))
       ['','', '';''] = (Inr production_frame, [])
   \<and> snd (create_json_from_csv (Suc 0) example_lib ['','', '';''] example_files ''inputs''
            ''energyProduction'' [''label''] False) = [''label'', ''maximumCap'']"
proof -
  have rd: "find_separator example_lib example_files
      (join ''inputs'' (''energyProduction'' @ ''.csv'')) ['','', '';''] =
      (Inr production_frame, [])"
    by code_simp
  have ix: "''maximumCap'' \<in> set (index production_frame)"
    by code_simp
  show ?thesis
    using rd ix maximumCap_appended_in_place [OF rd, of 0 "[''label'']" False]
    by simp
qed

text \<open>
  The caller's list \<open>[label, installedCap]\<close> is not the same after the call.
\<close>

theorem parameters_mutated_counterexample:
  "snd (create_json_from_csv 1 example_lib ['','', '';''] example_files ''inputs''
          ''energyProduction'' [''label'', ''installedCap''] False) =
     [''label'', ''installedCap'', ''maximumCap'']"
  by code_simp

section \<open>The storage file that is missing\<close>




section \<open>Facts about the comparison with the reference\<close>

lemma others_kept_refl: "others_kept mp st st"
  by (simp add: others_kept_def)

lemma others_kept_trans: "others_kept mp a b \<Longrightarrow> others_kept mp b c \<Longrightarrow> others_kept mp a c"
  by (simp add: others_kept_def)

lemma foldS_rel:
  assumes run: "foldS f xs s = (r, s')"
    and step: "\<And>s x r s'. f s x = (r, s') \<Longrightarrow> R s s'"
    and refl: "\<And>s. R s s"
    and trans: "\<And>a b c. R a b \<Longrightarrow> R b c \<Longrightarrow> R a c"
  shows "R s s'"
  using run
proof (induction xs arbitrary: s r s')
  case Nil
  then show ?case by (simp add: refl)
next
  case (Cons x xs)
  obtain e l s1 where fx: "f s x = ((e, l), s1)" by (metis prod.exhaust)
  have r1: "R s s1" using step fx by blast
  show ?case
  proof (cases e)
    case (Some a)
    with Cons.prems fx have "s' = s1" by simp
    with r1 show ?thesis by simp
  next
    case None
    obtain r2 l2 s2 where f2: "foldS f xs s1 = ((r2, l2), s2)" by (metis prod.exhaust)
    with Cons.prems fx None have "s' = s2" by simp
    with Cons.IH [OF f2] r1 show ?thesis using trans by blast
  qed
qed

lemma then_eff_rel:
  assumes "then_eff m f = (r, s')" and "m = (r0, s0)" and "R s s0"
    and step: "\<And>s r s'. f s = (r, s') \<Longrightarrow> R s s'"
    and trans: "\<And>a b c. R a b \<Longrightarrow> R b c \<Longrightarrow> R a c"
  shows "R s s'"
proof -
  obtain e l where r0: "r0 = (e, l)" by (cases r0)
  show ?thesis
  proof (cases e)
    case (Some a)
    with assms r0 show ?thesis by (simp add: then_eff_def)
  next
    case None
    obtain r2 l2 s2 where f2: "f s0 = ((r2, l2), s2)" by (metis prod.exhaust)
    with assms r0 None have "s' = s2" by (simp add: then_eff_def)
    with step [OF f2] assms(3) trans show ?thesis by blast
  qed
qed

lemma map_fst_dict_set: "k \<in> fst ` set d \<Longrightarrow> map fst (dict_set d k v) = map fst d"
  by (induction d) force+

lemma set_default_value_kept:
  assumes "set_default_value C mp k sp ke main = (Inr m, l)"
  shows "map fst m = map fst main \<and> (\<forall>g. g \<noteq> mp \<longrightarrow> map_of m g = map_of main g)"
proof -
  from assms obtain g where g: "map_of main mp = Some g"
    by (cases "map_of main mp") (auto simp: set_default_value_def raise_def)
  then have key: "mp \<in> fst ` set main"
    by (metis domI dom_map_of_conv_image_fst)
  from assms g obtain v where "m = dict_set main mp v"
    by (auto simp: set_default_value_def raise_def ret_def dict_get_def
        split: pyval.splits if_splits option.splits list.splits)
  then show ?thesis using key by (simp add: map_fst_dict_set map_of_dict_set)
qed

lemma bind_InrE:
  assumes "bind m f = (Inr y, l)"
  obtains x l1 l2 where "m = (Inr x, l1)" and "f x = (Inr y, l2)" and "l = l1 @ l2"
proof -
  obtain r l1 where m: "m = (r, l1)" by (cases m)
  show thesis
  proof (cases r)
    case (Inl e)
    with assms m show thesis by simp
  next
    case (Inr x)
    obtain r2 l2 where f: "f x = (r2, l2)" by (cases "f x")
    with assms m Inr have "r2 = Inr y" "l = l1 @ l2" by simp_all
    with that m Inr f show thesis by blast
  qed
qed

lemma reconcile_param_kept:
  assumes "reconcile_param C sd mp rs k st sp = (Inr st', l)"
  shows "others_kept mp st st' \<and> sub_params st' = sub_params st"
proof (cases "sp \<in> set rs \<and> sp \<in> fst ` set (KNOWN_EXTRA_PARAMETERS C) \<and> sd")
  case True
  with assms have "bind (dict_get (KNOWN_EXTRA_PARAMETERS C) sp) (\<lambda>ke.
           bind (set_default_value C mp k sp ke (main_parameters st)) (\<lambda>m.
           ret (st\<lparr>main_parameters := m\<rparr>))) = (Inr st', l)"
    by (simp add: reconcile_param_def)
  then obtain ke l1 l2 where
    "bind (set_default_value C mp k sp ke (main_parameters st))
       (\<lambda>m. ret (st\<lparr>main_parameters := m\<rparr>)) = (Inr st', l2)"
    by (rule bind_InrE)
  then obtain m l3 l4 where m: "set_default_value C mp k sp ke (main_parameters st) = (Inr m, l3)"
    and st': "ret (st\<lparr>main_parameters := m\<rparr>) = (Inr st', l4)"
    by (rule bind_InrE)
  from st' have "st' = st\<lparr>main_parameters := m\<rparr>" by (simp add: ret_def)
  with set_default_value_kept [OF m] show ?thesis by (simp add: others_kept_def)
next
  case False
  with assms show ?thesis
    by (auto simp: reconcile_param_def others_kept_def ret_def raise_def map_of_dict_set
        get_missing_def split: if_splits option.splits)
qed

lemma atomic_rel:
  assumes "atomic m s = (r, s')" and "\<And>x l. m = (Inr x, l) \<Longrightarrow> R s x" and "R s s"
  shows "R s s'"
  using assms by (auto simp: atomic_def split: prod.splits sum.splits)

lemma compare_sub_parameters_kept:
  assumes "compare_sub_parameters C sd mp required k v st = (r, st')"
  shows "others_kept mp st st'"
proof (cases required)
  case None
  with assms show ?thesis by (simp add: compare_sub_parameters_def others_kept_refl)
next
  case (Some rs)
  obtain nr nl where n: "names_of v = (nr, nl)" by (cases "names_of v")
  show ?thesis
  proof (cases nr)
    case (Inl e)
    with assms Some n show ?thesis by (simp add: compare_sub_parameters_def others_kept_refl)
  next
    case (Inr names)
    with assms Some n have
      "foldS (\<lambda>s sp. atomic (reconcile_param C sd mp rs k s sp) s) (sym_diff_list names rs) st = (r, st')"
      by (simp add: compare_sub_parameters_def)
    then show ?thesis
    proof (rule foldS_rel [where R = "others_kept mp"])
      fix s x r' s'
      assume "atomic (reconcile_param C sd mp rs k s x) s = (r', s')"
      then show "others_kept mp s s'"
        by (rule atomic_rel) (use reconcile_param_kept in \<open>blast intro: others_kept_refl\<close>)+
    qed (blast intro: others_kept_refl others_kept_trans)+
  qed
qed


lemma sub_params_step_kept:
  assumes "sub_params_step C sd mp required r0 n st k = (r, st')"
  shows "others_kept mp st st'"
proof -
  obtain vr vl where v: "sub_params_value (main_parameters st) r0 k = (vr, vl)"
    by (cases "sub_params_value (main_parameters st) r0 k")
  show ?thesis
  proof (cases vr)
    case (Inl e)
    with assms v show ?thesis by (simp add: sub_params_step_def others_kept_refl)
  next
    case (Inr sp)
    obtain r1 s1 where c: "compare_sub_parameters C sd mp required k sp st = (r1, s1)"
      by (cases "compare_sub_parameters C sd mp required k sp st")
    from assms v Inr have
      "then_eff (compare_sub_parameters C sd mp required k sp st)
         (\<lambda>st'. if iterated_size (main_parameters st') r0 \<noteq> n
                 then ((Some RuntimeError, []), st') else ((None, []), st')) = (r, st')"
      by (simp add: sub_params_step_def)
    then show ?thesis
    proof (rule then_eff_rel [OF _ c])
      show "others_kept mp st s1" using c by (rule compare_sub_parameters_kept)
    qed (auto intro: others_kept_refl others_kept_trans split: if_splits)
  qed
qed

lemma choose_sub_params_kept:
  assumes "choose_sub_params C mp st = (Inr st', l)"
  shows "others_kept mp st st' \<and> main_parameters st' = main_parameters st
         \<and> missing_parameters st' = missing_parameters st
         \<and> extra_parameters st' = extra_parameters st"
  using assms
  by (auto simp: choose_sub_params_def others_kept_def ret_def raise_def dict_get_def
      split: if_splits option.splits pyval.splits)

lemma compare_group_kept:
  assumes "compare_group C sd req st mp = (r, st')"
  shows "others_kept mp st st'"
proof (cases "map_of req mp")
  case None
  with assms show ?thesis
    by (auto simp: compare_group_def others_kept_def map_of_dict_set)
next
  case (Some required)
  obtain r1 s1 where a: "atomic (choose_sub_params C mp st) st = (r1, s1)"
    by (cases "atomic (choose_sub_params C mp st) st")
  have k1: "others_kept mp st s1"
    using a by (rule atomic_rel) (use choose_sub_params_kept in \<open>blast intro: others_kept_refl\<close>)+
  from assms Some have
    "then_eff (atomic (choose_sub_params C mp st) st) (\<lambda>st.
            case sub_params st of
              None \<Rightarrow> ((Some UnboundLocalError, []), st)
            | Some r \<Rightarrow>
                (case sub_params_keys (main_parameters st) r of
                   (Inl e, l) \<Rightarrow> ((Some e, l), st)
                 | (Inr ks, l) \<Rightarrow>
                     foldS (sub_params_step C sd mp required r
                              (iterated_size (main_parameters st) r)) ks st)) = (r, st')"
    by (simp add: compare_group_def)
  then show ?thesis
  proof (rule then_eff_rel [where R = "others_kept mp" and s = st and ?s0.0 = s1, OF _ a k1])
    fix s r' s'
    assume b: "(case sub_params s of
              None \<Rightarrow> ((Some UnboundLocalError, []), s)
            | Some r \<Rightarrow>
                (case sub_params_keys (main_parameters s) r of
                   (Inl e, l) \<Rightarrow> ((Some e, l), s)
                 | (Inr ks, l) \<Rightarrow>
                     foldS (sub_params_step C sd mp required r
                              (iterated_size (main_parameters s) r)) ks s)) = (r', s')"
    show "others_kept mp s s'"
    proof (cases "sub_params s")
      case None
      with b show ?thesis by (simp add: others_kept_refl)
    next
      case (Some r0)
      obtain kr kl where ks: "sub_params_keys (main_parameters s) r0 = (kr, kl)"
        by (cases "sub_params_keys (main_parameters s) r0")
      show ?thesis
      proof (cases kr)
        case (Inl e)
        with b Some ks show ?thesis by (simp add: others_kept_refl)
      next
        case (Inr keys)
        with b Some ks have
          "foldS (sub_params_step C sd mp required r0 (iterated_size (main_parameters s) r0))
             keys s = (r', s')" by simp
        then show ?thesis
          by (rule foldS_rel)
            (blast intro: sub_params_step_kept others_kept_refl others_kept_trans)+
      qed
    qed
  qed (blast intro: others_kept_trans)
qed

text \<open>Groups other than mp leave the entries of mp alone.\<close>

lemma foldS_groups_kept:
  assumes "foldS (compare_group C sd req) gs st = (r, st')" and "mp \<notin> set gs"
  shows "map_of (main_parameters st') mp = map_of (main_parameters st) mp
       \<and> map_of (missing_parameters st') mp = map_of (missing_parameters st) mp
       \<and> map_of (extra_parameters st') mp = map_of (extra_parameters st) mp
       \<and> map fst (main_parameters st') = map fst (main_parameters st)"
  using assms
proof (induction gs arbitrary: st r st')
  case Nil
  then show ?case by simp
next
  case (Cons g gs)
  obtain r1 s1 where g: "compare_group C sd req st g = (r1, s1)"
    by (cases "compare_group C sd req st g")
  have k: "others_kept g st s1" using g by (rule compare_group_kept)
  from Cons.prems have ne: "mp \<noteq> g" "mp \<notin> set gs" by auto
  obtain e l where r1: "r1 = (e, l)" by (cases r1)
  show ?case
  proof (cases e)
    case (Some a)
    with Cons.prems g r1 have "st' = s1" by simp
    with k ne show ?thesis by (simp add: others_kept_def)
  next
    case None
    obtain r2 s2 where f2: "foldS (compare_group C sd req) gs s1 = (r2, s2)"
      by (cases "foldS (compare_group C sd req) gs s1")
    with Cons.prems g r1 None have "st' = s2" by (auto split: prod.splits)
    with Cons.IH [OF f2 ne(2)] k ne show ?thesis by (simp add: others_kept_def)
  qed
qed

lemma foldS_append:
  "foldS f (xs @ ys) s = then_eff (foldS f xs s) (foldS f ys)"
proof (induction xs arbitrary: s)
  case Nil
  show ?case by (simp add: then_eff_def split: prod.splits option.splits)
next
  case (Cons x xs)
  show ?case
    by (auto simp: Cons then_eff_def split: prod.splits option.splits)
qed


lemma foldS_split_ok:
  assumes "foldS f (pre @ x # post) s = ((None, l), s')"
  obtains l1 s1 l2 s2 l3 where "foldS f pre s = ((None, l1), s1)" and "f s1 x = ((None, l2), s2)"
    and "foldS f post s2 = ((None, l3), s')" and "l = l1 @ l2 @ l3"
proof -
  obtain e1 l1 s1 where p: "foldS f pre s = ((e1, l1), s1)" by (metis prod.exhaust)
  obtain e2 l2 s2 where x: "f s1 x = ((e2, l2), s2)" by (metis prod.exhaust)
  obtain e3 l3 s3 where q: "foldS f post s2 = ((e3, l3), s3)" by (metis prod.exhaust)
  from assms p have e1: "e1 = None"
    by (auto simp: foldS_append then_eff_def split: option.splits prod.splits)
  from assms p x e1 have e2: "e2 = None"
    by (auto simp: foldS_append then_eff_def split: option.splits prod.splits)
  from assms p x q e1 e2 have "e3 = None" "s3 = s'" "l = l1 @ l2 @ l3"
    by (auto simp: foldS_append then_eff_def split: option.splits prod.splits)
  with that p x q e1 e2 show thesis by blast
qed

lemma set_sym_diff_list: "set (sym_diff_list xs ys) = (set xs - set ys) \<union> (set ys - set xs)"
  by (auto simp: sym_diff_list_def)

lemma fold_reconcile_no_default:
  assumes "map_of (missing_parameters st) mp \<noteq> Some None"
  shows "\<exists>st'. foldS (\<lambda>s sp. atomic (reconcile_param C False mp rs k s sp) s) xs st =
                 ((None, []), st')
     \<and> main_parameters st' = main_parameters st
     \<and> set (listed (missing_parameters st') mp) =
         set (listed (missing_parameters st) mp) \<union> (set xs \<inter> set rs)
     \<and> set (get_or_empty (extra_parameters st') mp) =
         set (get_or_empty (extra_parameters st) mp) \<union> (set xs - set rs)
     \<and> map_of (missing_parameters st') mp \<noteq> Some None"
  using assms
proof (induction xs arbitrary: st)
  case Nil
  then show ?case by simp
next
  case (Cons x xs)
  obtain s1 where step: "atomic (reconcile_param C False mp rs k st x) st = ((None, []), s1)"
    and m1: "main_parameters s1 = main_parameters st"
    and l1: "set (listed (missing_parameters s1) mp) =
               set (listed (missing_parameters st) mp) \<union> ({x} \<inter> set rs)"
    and e1: "set (get_or_empty (extra_parameters s1) mp) =
               set (get_or_empty (extra_parameters st) mp) \<union> ({x} - set rs)"
    and n1: "map_of (missing_parameters s1) mp \<noteq> Some None"
  proof (cases "x \<in> set rs")
    case True
    obtain pl where pl: "get_missing (missing_parameters st) mp = ret pl"
      and pl2: "pl = listed (missing_parameters st) mp"
      using Cons.prems
      by (cases "map_of (missing_parameters st) mp")
         (auto simp: get_missing_def listed_def split: option.splits)
    show thesis
      by (rule that [of "st\<lparr>missing_parameters :=
                       dict_set (missing_parameters st) mp (Some (pl @ [x]))\<rparr>"])
         (use True pl pl2 in \<open>auto simp: atomic_def reconcile_param_def ret_def listed_def
             map_of_dict_set\<close>)
  next
    case False
    show thesis
    proof (cases "x \<in> set (get_or_empty (extra_parameters st) mp)")
      case True
      show thesis
        by (rule that [of st])
           (use False True Cons.prems in \<open>auto simp: atomic_def reconcile_param_def ret_def\<close>)
    next
      case nin: False
      show thesis
        by (rule that [of "st\<lparr>extra_parameters :=
                       dict_set (extra_parameters st) mp
                         (get_or_empty (extra_parameters st) mp @ [x])\<rparr>"])
           (use False nin Cons.prems in \<open>auto simp: atomic_def reconcile_param_def ret_def
               get_or_empty_def map_of_dict_set\<close>)
    qed
  qed
  from Cons.IH [OF n1] obtain s2 where
    f2: "foldS (\<lambda>s sp. atomic (reconcile_param C False mp rs k s sp) s) xs s1 = ((None, []), s2)"
    and p2: "main_parameters s2 = main_parameters s1"
      "set (listed (missing_parameters s2) mp) =
         set (listed (missing_parameters s1) mp) \<union> (set xs \<inter> set rs)"
      "set (get_or_empty (extra_parameters s2) mp) =
         set (get_or_empty (extra_parameters s1) mp) \<union> (set xs - set rs)"
      "map_of (missing_parameters s2) mp \<noteq> Some None"
    by blast
  show ?case
    by (rule exI [of _ s2]) (use step f2 p2 m1 l1 e1 in auto)
qed

lemma all_str_keys [simp]: "list_all is_str (map (PStr \<circ> f) xs)"
  by (simp add: list_all_iff)

lemma str_of_keys [simp]: "map (str_of \<circ> (PStr \<circ> f)) xs = map f xs"
  by simp

lemma compare_group_no_default:
  assumes "map_of req mp = Some (Some rs)" and "mp \<in> set (non_asset_groups C)"
    and "map_of (main_parameters st) mp = Some (PDict gd)"
    and "map_of (missing_parameters st) mp \<noteq> Some None"
  shows "\<exists>st'. compare_group C False req st mp = ((None, []), st')
     \<and> set (listed (missing_parameters st') mp) =
         set (listed (missing_parameters st) mp) \<union> (set rs - fst ` set gd)
     \<and> set (get_or_empty (extra_parameters st') mp) =
         set (get_or_empty (extra_parameters st) mp) \<union> (fst ` set gd - set rs)"
proof -
  let ?s1 = "st\<lparr>sub_params := Some (NonAssetOf mp)\<rparr>"
  have n: "map_of (missing_parameters ?s1) mp \<noteq> Some None" using assms by simp
  obtain s2 where
    f: "foldS (\<lambda>s sp. atomic (reconcile_param C False mp rs ''non-asset'' s sp) s)
          (sym_diff_list (map fst gd) rs) ?s1 = ((None, []), s2)"
    and m2: "main_parameters s2 = main_parameters ?s1"
    and l2: "set (listed (missing_parameters s2) mp) =
         set (listed (missing_parameters ?s1) mp) \<union> (set (sym_diff_list (map fst gd) rs) \<inter> set rs)"
    and e2: "set (get_or_empty (extra_parameters s2) mp) =
         set (get_or_empty (extra_parameters ?s1) mp) \<union> (set (sym_diff_list (map fst gd) rs) - set rs)"
    using fold_reconcile_no_default [OF n] by blast
  have "compare_group C False req st mp = ((None, []), s2)"
    using assms f m2
    by (simp add: compare_group_def choose_sub_params_def atomic_def then_eff_def ret_def
        sub_params_keys_def sub_params_step_def sub_params_value_def iterated_size_def
        compare_sub_parameters_def)
  moreover have "set (sym_diff_list (map fst gd) rs) \<inter> set rs = set rs - fst ` set gd"
    and "set (sym_diff_list (map fst gd) rs) - set rs = fst ` set gd - set rs"
    by (auto simp: set_sym_diff_list)
  ultimately show ?thesis using l2 e2 by auto
qed


lemma missing_groups_kept:
  "mp \<in> fst ` set main \<Longrightarrow> map_of (missing_groups req main m) mp = map_of m mp"
  unfolding missing_groups_def
  by (induction req arbitrary: m) (force simp: map_of_dict_set)+

lemma map_of_map_Some:
  "map_of (map (\<lambda>(mp, xs). (mp, Some xs)) extra) mp = map_option Some (map_of extra mp)"
  by (induction extra) auto

lemma reported_make_answer:
  assumes "MISSING_PARAMETERS_KEY C \<noteq> EXTRA_PARAMETERS_KEY C"
  shows "reported (make_answer C missing extra) (MISSING_PARAMETERS_KEY C) mp = listed missing mp"
    and "reported (make_answer C missing extra) (EXTRA_PARAMETERS_KEY C) mp = get_or_empty extra mp"
  using assms
  by (auto simp: reported_def make_answer_def listed_def get_or_empty_def map_of_map_Some
      split: option.splits)

lemma log_each_logging:
  assumes "\<And>x. g x = (Inr (), [h x])"
  shows "log_each g xs = (Inr (), map h xs)"
  by (induction xs) (simp_all add: assms ret_def seq_def)

lemma parameter_check_logs:
  "parameter_check input_directory filename parameters d =
     (Inr (),
      map (\<lambda>i. if i \<in> set parameters
                then Log ERROR ''parameter_missing'' [filename, i, input_directory]
                else Log ERROR ''parameter_not_recognized'' [filename, i, input_directory])
        (sym_diff_list parameters (index d)))"
  unfolding parameter_check_def
  by (rule log_each_logging) (simp add: logging_def)

lemma compare_run_ok:
  assumes "compare_input_parameters_with_reference C folder_path (JSON_EXT C) fm sd =
             ((Inr a, lg), main')"
    and "map_of (REQUIRED_MVS_PARAMETERS C) (JSON_EXT C) = Some req"
  obtains l st where
    "foldS (compare_group C sd req) (map fst folder_path)
       \<lparr>main_parameters = folder_path, missing_parameters = [],
        extra_parameters = [], sub_params = None\<rparr> = ((None, l), st)"
    and "main' = main_parameters st"
    and "a = make_answer C
           (missing_groups req (main_parameters st) (missing_parameters st))
           (extra_parameters st)"
proof -
  obtain e l st where f: "foldS (compare_group C sd req) (map fst folder_path)
       \<lparr>main_parameters = folder_path, missing_parameters = [],
        extra_parameters = [], sub_params = None\<rparr> = ((e, l), st)"
    by (metis prod.exhaust)
  show thesis
  proof (cases e)
    case None
    show thesis
      by (rule that [of l st])
         (use assms f None in \<open>auto simp: compare_input_parameters_with_reference_def Let_def
            warn_missing_parameters_def raise_def ret_def seq_def split: if_splits\<close>)
  next
    case (Some x)
    with assms f have False
      by (simp add: compare_input_parameters_with_reference_def)
    then show thesis ..
  qed
qed

lemma split_distinct:
  assumes "x \<in> set xs" and "distinct xs"
  obtains pre post where "xs = pre @ x # post" and "x \<notin> set pre" and "x \<notin> set post"
proof -
  from assms(1) obtain pre post where xs: "xs = pre @ x # post" by (meson split_list)
  with assms(2) have "x \<notin> set pre" "x \<notin> set post" by auto
  with xs that show thesis by blast
qed

section \<open>The comparison is a symmetric difference\<close>

text \<open>
  C6: when \<open>compare_input_parameters_with_reference\<close> is called on a dict without
  \<open>flag_missing\<close> and \<open>set_default\<close> and returns, then for a group of project parameters
  the names it reports as missing are the required names that are not provided, and the
  names it reports as extra are the provided names that are not required. The check in
  \<open>create_json_from_csv\<close> logs one error for each name of the symmetric difference of
  the required parameters and the index of the table, and raises nothing.
\<close>

theorem reconcile_symmetric_difference:
  assumes run: "compare_input_parameters_with_reference C folder_path (JSON_EXT C) False False =
             ((Inr a, lg), main')"
    and req: "map_of (REQUIRED_MVS_PARAMETERS C) (JSON_EXT C) = Some req"
    and rs: "map_of req mp = Some (Some rs)"
    and na: "mp \<in> set (non_asset_groups C)"
    and gd: "map_of folder_path mp = Some (PDict gd)"
    and dist: "distinct (map fst folder_path)"
    and keys: "MISSING_PARAMETERS_KEY C \<noteq> EXTRA_PARAMETERS_KEY C"
  shows "set (reported a (MISSING_PARAMETERS_KEY C) mp) = set rs - fst ` set gd
       \<and> set (reported a (EXTRA_PARAMETERS_KEY C) mp) = fst ` set gd - set rs
       \<and> parameter_check input_directory filename parameters d =
           (Inr (),
            map (\<lambda>i. if i \<in> set parameters
                      then Log ERROR ''parameter_missing'' [filename, i, input_directory]
                      else Log ERROR ''parameter_not_recognized'' [filename, i, input_directory])
              (sym_diff_list parameters (index d)))
       \<and> set (sym_diff_list parameters (index d)) =
           (set parameters - set (index d)) \<union> (set (index d) - set parameters)"
proof -
  let ?s0 = "\<lparr>main_parameters = folder_path, missing_parameters = [],
        extra_parameters = [], sub_params = None\<rparr>"
  from run req obtain l st where
    f: "foldS (compare_group C False req) (map fst folder_path) ?s0 = ((None, l), st)"
    and a: "a = make_answer C
           (missing_groups req (main_parameters st) (missing_parameters st))
           (extra_parameters st)"
    by (rule compare_run_ok)
  from gd have inkeys: "mp \<in> set (map fst folder_path)"
    by (metis domI dom_map_of_conv_image_fst set_map)
  from inkeys dist obtain pre post where sp: "map fst folder_path = pre @ mp # post"
    and npre: "mp \<notin> set pre" and npost: "mp \<notin> set post"
    by (rule split_distinct)
  from f sp obtain l1 s1 l2 s2 l3 where
    f1: "foldS (compare_group C False req) pre ?s0 = ((None, l1), s1)"
    and f2: "compare_group C False req s1 mp = ((None, l2), s2)"
    and f3: "foldS (compare_group C False req) post s2 = ((None, l3), st)"
    by (metis foldS_split_ok)
  from foldS_groups_kept [OF f1 npre] gd have
    m1: "map_of (main_parameters s1) mp = Some (PDict gd)"
    and mi1: "map_of (missing_parameters s1) mp = None"
    and ex1: "map_of (extra_parameters s1) mp = None"
    by simp_all
  from compare_group_no_default [OF rs na m1] mi1 f2 have
    l2: "set (listed (missing_parameters s2) mp) =
           set (listed (missing_parameters s1) mp) \<union> (set rs - fst ` set gd)"
    and e2: "set (get_or_empty (extra_parameters s2) mp) =
           set (get_or_empty (extra_parameters s1) mp) \<union> (fst ` set gd - set rs)"
    by auto
  from foldS_groups_kept [OF f3 npost] have
    k3: "map_of (missing_parameters st) mp = map_of (missing_parameters s2) mp"
      "map_of (extra_parameters st) mp = map_of (extra_parameters s2) mp"
      "map fst (main_parameters st) = map fst (main_parameters s2)"
    by simp_all
  from foldS_groups_kept [OF f1 npre] compare_group_kept [OF f2] k3(3)
  have "map fst (main_parameters st) = map fst folder_path"
    by (simp add: others_kept_def)
  with sp have inm: "mp \<in> fst ` set (main_parameters st)"
    by (metis in_set_conv_decomp set_map)
  have "listed (missing_groups req (main_parameters st) (missing_parameters st)) mp =
        listed (missing_parameters s2) mp"
    using missing_groups_kept [OF inm] k3 by (simp add: listed_def)
  moreover have "get_or_empty (extra_parameters st) mp = get_or_empty (extra_parameters s2) mp"
    using k3 by (simp add: get_or_empty_def)
  moreover have "listed (missing_parameters s1) mp = []" "get_or_empty (extra_parameters s1) mp = []"
    using mi1 ex1 by (simp_all add: listed_def get_or_empty_def)
  ultimately show ?thesis
    using l2 e2 a reported_make_answer [OF keys] parameter_check_logs set_sym_diff_list
    by simp
qed


theorem reconcile_symmetric_difference_witness:
  "compare_input_parameters_with_reference example_constants example_parameters
       (JSON_EXT example_constants) False False =
     ((Inr [(''missing_parameters'',
               [(''economic_data'', Some [''c'']), (''energyProduction'', Some [''maximumCap''])]),
            (''extra_parameters'', [(''economic_data'', Some [''d''])])], []),
      example_parameters)
   \<and> set (reported
            [(''missing_parameters'',
               [(''economic_data'', Some [''c'']), (''energyProduction'', Some [''maximumCap''])]),
             (''extra_parameters'', [(''economic_data'', Some [''d''])])]
            (MISSING_PARAMETERS_KEY example_constants) ''economic_data'') = {''c''}
   \<and> set (reported
            [(''missing_parameters'',
               [(''economic_data'', Some [''c'']), (''energyProduction'', Some [''maximumCap''])]),
             (''extra_parameters'', [(''economic_data'', Some [''d''])])]
            (EXTRA_PARAMETERS_KEY example_constants) ''economic_data'') = {''d''}"
proof -
  let ?gd = "[(''a'', PDict [(''value'', PInt 1), (''unit'', PStr ''factor'')]),
              (''b'', PDict [(''value'', PInt 2), (''unit'', PStr ''factor'')]),
              (''d'', PDict [(''value'', PInt 4), (''unit'', PStr ''factor'')])]"
  have run: "compare_input_parameters_with_reference example_constants example_parameters
       (JSON_EXT example_constants) False False =
     ((Inr [(''missing_parameters'',
               [(''economic_data'', Some [''c'']), (''energyProduction'', Some [''maximumCap''])]),
            (''extra_parameters'', [(''economic_data'', Some [''d''])])], []),
      example_parameters)"
    by code_simp
  have req: "map_of (REQUIRED_MVS_PARAMETERS example_constants) (JSON_EXT example_constants) =
      Some [(''economic_data'', Some [''a'', ''b'', ''c'']),
            (''energyProduction'', Some [''label'', ''maximumCap''])]"
    by (simp add: example_constants_def)
  have rs: "map_of [(''economic_data'', Some [''a'', ''b'', ''c'']),
                    (''energyProduction'', Some [''label'', ''maximumCap''])] ''economic_data'' =
      Some (Some [''a'', ''b'', ''c''])"
    by simp
  have na: "''economic_data'' \<in> set (non_asset_groups example_constants)"
    by (simp add: example_constants_def)
  have gd: "map_of example_parameters ''economic_data'' = Some (PDict ?gd)"
    by (simp add: example_parameters_def)
  have dist: "distinct (map fst example_parameters)"
    by (simp add: example_parameters_def)
  have keys: "MISSING_PARAMETERS_KEY example_constants \<noteq> EXTRA_PARAMETERS_KEY example_constants"
    by (simp add: example_constants_def)
  have sets: "set [''a'', ''b'', ''c''] - fst ` set ?gd = {''c''}"
    "fst ` set ?gd - set [''a'', ''b'', ''c''] = {''d''}"
    by auto
  show ?thesis
    using run sets
      reconcile_symmetric_difference [OF run req rs na gd dist keys,
        of "''inputs''" "''energyProduction''" "[''label'']" production_frame]
    by simp
qed

section \<open>Facts about the default values\<close>

lemma atomic_ok:
  assumes "atomic m s = ((None, l), s')"
  shows "m = (Inr s', l)"
  using assms by (auto simp: atomic_def split: prod.splits sum.splits)

lemma foldS_cons_ok:
  assumes "foldS f (x # xs) s = ((None, l), s')"
  obtains l1 s1 l2 where "f s x = ((None, l1), s1)" and "foldS f xs s1 = ((None, l2), s')"
  using assms by (auto split: prod.splits option.splits)

lemma set_default_non_asset:
  assumes "set_default_value C mp ''non-asset'' sp ke main = (Inr m, l)"
    and "map_of main mp = Some (PDict gd)"
  shows "m = dict_set main mp (PDict (dict_set gd sp (default_node C ke)))"
  using assms by (simp add: set_default_value_def ret_def)

lemma set_default_asset:
  assumes "set_default_value C mp k sp ke main = (Inr m, l)"
    and "map_of main mp = Some (PDict gd)" and "k \<noteq> ''non-asset''"
  shows "\<exists>ad. map_of gd k = Some (PDict ad)
           \<and> m = dict_set main mp (PDict (dict_set gd k (PDict (dict_set ad sp (default_node C ke)))))"
  using assms
  by (auto simp: set_default_value_def ret_def raise_def dict_get_def
      split: option.splits pyval.splits)

text \<open>What one pass for the name x does to the group mp of project parameters.\<close>

lemma reconcile_param_non_asset:
  assumes "reconcile_param C True mp rs ''non-asset'' st x = (Inr st', l)"
    and "map_of (main_parameters st) mp = Some (PDict gd)"
  shows "\<exists>gd'. map_of (main_parameters st') mp = Some (PDict gd')
     \<and> map_of gd' = (\<lambda>y. if y = x \<and> x \<in> set rs \<and> x \<in> fst ` set (KNOWN_EXTRA_PARAMETERS C)
                        then map_option (default_node C) (map_of (KNOWN_EXTRA_PARAMETERS C) x)
                        else map_of gd y)"
proof (cases "x \<in> set rs \<and> x \<in> fst ` set (KNOWN_EXTRA_PARAMETERS C)")
  case True
  then obtain ke where ke: "map_of (KNOWN_EXTRA_PARAMETERS C) x = Some ke"
    by (metis domD dom_map_of_conv_image_fst)
  with assms True obtain m l' where
    m: "set_default_value C mp ''non-asset'' x ke (main_parameters st) = (Inr m, l')"
    and st': "st' = st\<lparr>main_parameters := m\<rparr>"
    by (auto simp: reconcile_param_def ret_def elim!: bind_InrE)
  from set_default_non_asset [OF m assms(2)] st' True ke show ?thesis
    by (auto simp: map_of_dict_set)
next
  case False
  with assms have "main_parameters st' = main_parameters st"
    by (auto simp: reconcile_param_def ret_def raise_def get_missing_def
        split: if_splits option.splits)
  with False assms(2) show ?thesis by auto
qed

lemma fold_default_non_asset:
  assumes "foldS (\<lambda>s sp. atomic (reconcile_param C True mp rs ''non-asset'' s sp) s) xs st =
             ((None, l), st')"
    and "map_of (main_parameters st) mp = Some (PDict gd)"
  shows "\<exists>gd'. map_of (main_parameters st') mp = Some (PDict gd')
     \<and> map_of gd' = (\<lambda>y. if y \<in> set xs \<and> y \<in> set rs \<and> y \<in> fst ` set (KNOWN_EXTRA_PARAMETERS C)
                        then map_option (default_node C) (map_of (KNOWN_EXTRA_PARAMETERS C) y)
                        else map_of gd y)"
  using assms
proof (induction xs arbitrary: st gd l)
  case Nil
  then show ?case by simp
next
  case (Cons x xs)
  from Cons.prems(1) obtain l1 s1 l2 where
    a: "atomic (reconcile_param C True mp rs ''non-asset'' st x) st = ((None, l1), s1)"
    and f: "foldS (\<lambda>s sp. atomic (reconcile_param C True mp rs ''non-asset'' s sp) s) xs s1 =
              ((None, l2), st')"
    by (rule foldS_cons_ok)
  from atomic_ok [OF a] reconcile_param_non_asset Cons.prems(2) obtain gd1 where
    g1: "map_of (main_parameters s1) mp = Some (PDict gd1)"
    and m1: "map_of gd1 = (\<lambda>y. if y = x \<and> x \<in> set rs \<and> x \<in> fst ` set (KNOWN_EXTRA_PARAMETERS C)
                        then map_option (default_node C) (map_of (KNOWN_EXTRA_PARAMETERS C) x)
                        else map_of gd y)"
    by blast
  from Cons.IH [OF f g1] obtain gd' where
    g': "map_of (main_parameters st') mp = Some (PDict gd')"
    and m': "map_of gd' = (\<lambda>y. if y \<in> set xs \<and> y \<in> set rs \<and> y \<in> fst ` set (KNOWN_EXTRA_PARAMETERS C)
                        then map_option (default_node C) (map_of (KNOWN_EXTRA_PARAMETERS C) y)
                        else map_of gd1 y)"
    by blast
  show ?case
    by (rule exI [of _ gd']) (use g' m' m1 in \<open>auto simp: fun_eq_iff\<close>)
qed


lemma then_eff_ok:
  assumes "then_eff m f = ((None, l), s')"
  obtains l1 s1 l2 where "m = ((None, l1), s1)" and "f s1 = ((None, l2), s')"
  using assms by (auto simp: then_eff_def split: prod.splits option.splits)

text \<open>What one pass for the name x does to the asset k of the group mp.\<close>

lemma reconcile_param_asset:
  assumes "reconcile_param C True mp rs k st x = (Inr st', l)"
    and "k \<noteq> ''non-asset''"
    and "map_of (main_parameters st) mp = Some (PDict gd)"
  shows "\<exists>gd'. map_of (main_parameters st') mp = Some (PDict gd')
     \<and> map fst gd' = map fst gd
     \<and> (\<forall>k'. k' \<noteq> k \<longrightarrow> map_of gd' k' = map_of gd k')
     \<and> (\<forall>ad. map_of gd k = Some (PDict ad) \<longrightarrow>
           (\<exists>ad'. map_of gd' k = Some (PDict ad')
              \<and> map_of ad' = (\<lambda>y. if y = x \<and> x \<in> set rs \<and> x \<in> fst ` set (KNOWN_EXTRA_PARAMETERS C)
                        then map_option (default_node C) (map_of (KNOWN_EXTRA_PARAMETERS C) x)
                        else map_of ad y)))"
proof (cases "x \<in> set rs \<and> x \<in> fst ` set (KNOWN_EXTRA_PARAMETERS C)")
  case True
  then obtain ke where ke: "map_of (KNOWN_EXTRA_PARAMETERS C) x = Some ke"
    by (metis domD dom_map_of_conv_image_fst)
  with assms True obtain m l' where
    m: "set_default_value C mp k x ke (main_parameters st) = (Inr m, l')"
    and st': "st' = st\<lparr>main_parameters := m\<rparr>"
    by (auto simp: reconcile_param_def ret_def elim!: bind_InrE)
  from set_default_asset [OF m assms(3) assms(2)] obtain ad0 where
    a0: "map_of gd k = Some (PDict ad0)"
    and m2: "m = dict_set (main_parameters st) mp
                 (PDict (dict_set gd k (PDict (dict_set ad0 x (default_node C ke)))))"
    by blast
  from a0 have "k \<in> fst ` set gd" by (metis domI dom_map_of_conv_image_fst)
  then have keys: "map fst (dict_set gd k (PDict (dict_set ad0 x (default_node C ke)))) = map fst gd"
    by (rule map_fst_dict_set)
  show ?thesis
    by (rule exI [of _ "dict_set gd k (PDict (dict_set ad0 x (default_node C ke)))"])
       (use st' m2 a0 keys True ke in \<open>auto simp: map_of_dict_set\<close>)
next
  case False
  with assms have "main_parameters st' = main_parameters st"
    by (auto simp: reconcile_param_def ret_def raise_def get_missing_def
        split: if_splits option.splits)
  with False assms(3) show ?thesis by auto
qed

lemma fold_default_asset:
  assumes "foldS (\<lambda>s sp. atomic (reconcile_param C True mp rs k s sp) s) xs st =
             ((None, l), st')"
    and "k \<noteq> ''non-asset''"
    and "map_of (main_parameters st) mp = Some (PDict gd)"
  shows "\<exists>gd'. map_of (main_parameters st') mp = Some (PDict gd')
     \<and> map fst gd' = map fst gd
     \<and> (\<forall>k'. k' \<noteq> k \<longrightarrow> map_of gd' k' = map_of gd k')
     \<and> (\<forall>ad. map_of gd k = Some (PDict ad) \<longrightarrow>
           (\<exists>ad'. map_of gd' k = Some (PDict ad')
              \<and> map_of ad' = (\<lambda>y. if y \<in> set xs \<and> y \<in> set rs \<and> y \<in> fst ` set (KNOWN_EXTRA_PARAMETERS C)
                        then map_option (default_node C) (map_of (KNOWN_EXTRA_PARAMETERS C) y)
                        else map_of ad y)))"
  using assms
proof (induction xs arbitrary: st gd l)
  case Nil
  then show ?case by simp
next
  case (Cons x xs)
  from Cons.prems(1) obtain l1 s1 l2 where
    a: "atomic (reconcile_param C True mp rs k st x) st = ((None, l1), s1)"
    and f: "foldS (\<lambda>s sp. atomic (reconcile_param C True mp rs k s sp) s) xs s1 =
              ((None, l2), st')"
    by (rule foldS_cons_ok)
  from reconcile_param_asset [OF atomic_ok [OF a] Cons.prems(2) Cons.prems(3)] obtain gd1 where
    g1: "map_of (main_parameters s1) mp = Some (PDict gd1)"
    and k1: "map fst gd1 = map fst gd"
    and o1: "\<forall>k'. k' \<noteq> k \<longrightarrow> map_of gd1 k' = map_of gd k'"
    and a1: "\<forall>ad. map_of gd k = Some (PDict ad) \<longrightarrow>
           (\<exists>ad'. map_of gd1 k = Some (PDict ad')
              \<and> map_of ad' = (\<lambda>y. if y = x \<and> x \<in> set rs \<and> x \<in> fst ` set (KNOWN_EXTRA_PARAMETERS C)
                        then map_option (default_node C) (map_of (KNOWN_EXTRA_PARAMETERS C) x)
                        else map_of ad y))"
    by blast
  from Cons.IH [OF f Cons.prems(2) g1] obtain gd' where
    g': "map_of (main_parameters st') mp = Some (PDict gd')"
    and k': "map fst gd' = map fst gd1"
    and o': "\<forall>k'. k' \<noteq> k \<longrightarrow> map_of gd' k' = map_of gd1 k'"
    and a': "\<forall>ad. map_of gd1 k = Some (PDict ad) \<longrightarrow>
           (\<exists>ad'. map_of gd' k = Some (PDict ad')
              \<and> map_of ad' = (\<lambda>y. if y \<in> set xs \<and> y \<in> set rs \<and> y \<in> fst ` set (KNOWN_EXTRA_PARAMETERS C)
                        then map_option (default_node C) (map_of (KNOWN_EXTRA_PARAMETERS C) y)
                        else map_of ad y))"
    by blast
  have "\<exists>ad'. map_of gd' k = Some (PDict ad')
              \<and> map_of ad' = (\<lambda>y. if y \<in> set (x # xs) \<and> y \<in> set rs \<and> y \<in> fst ` set (KNOWN_EXTRA_PARAMETERS C)
                        then map_option (default_node C) (map_of (KNOWN_EXTRA_PARAMETERS C) y)
                        else map_of ad y)"
    if ad: "map_of gd k = Some (PDict ad)" for ad
  proof -
    from a1 ad obtain ad1 where
      b1: "map_of gd1 k = Some (PDict ad1)"
      and c1: "map_of ad1 = (\<lambda>y. if y = x \<and> x \<in> set rs \<and> x \<in> fst ` set (KNOWN_EXTRA_PARAMETERS C)
                        then map_option (default_node C) (map_of (KNOWN_EXTRA_PARAMETERS C) x)
                        else map_of ad y)"
      by blast
    from a' b1 obtain ad' where
      b': "map_of gd' k = Some (PDict ad')"
      and c': "map_of ad' = (\<lambda>y. if y \<in> set xs \<and> y \<in> set rs \<and> y \<in> fst ` set (KNOWN_EXTRA_PARAMETERS C)
                        then map_option (default_node C) (map_of (KNOWN_EXTRA_PARAMETERS C) y)
                        else map_of ad1 y)"
      by blast
    show ?thesis
      by (rule exI [of _ ad']) (use b' c' c1 in \<open>auto simp: fun_eq_iff\<close>)
  qed
  with g' k' k1 o' o1 show ?case by auto
qed


lemma compare_group_default_non_asset:
  assumes run: "compare_group C True req st mp = ((None, l), st')"
    and rs: "map_of req mp = Some (Some rs)"
    and na: "mp \<in> set (non_asset_groups C)"
    and gd: "map_of (main_parameters st) mp = Some (PDict gd)"
  shows "\<exists>gd'. map_of (main_parameters st') mp = Some (PDict gd')
     \<and> map_of gd' = (\<lambda>y. if y \<in> set rs \<and> y \<notin> fst ` set gd \<and> y \<in> fst ` set (KNOWN_EXTRA_PARAMETERS C)
                        then map_option (default_node C) (map_of (KNOWN_EXTRA_PARAMETERS C) y)
                        else map_of gd y)"
proof -
  let ?s1 = "st\<lparr>sub_params := Some (NonAssetOf mp)\<rparr>"
  from run rs na gd have
    "then_eff (foldS (\<lambda>s sp. atomic (reconcile_param C True mp rs ''non-asset'' s sp) s)
          (sym_diff_list (map fst gd) rs) ?s1) (\<lambda>st'. ((None, []), st')) = ((None, l), st')"
    by (simp add: compare_group_def choose_sub_params_def atomic_def then_eff_def ret_def
        sub_params_keys_def sub_params_step_def sub_params_value_def iterated_size_def
        compare_sub_parameters_def split: prod.splits option.splits)
  then obtain l1 where
    f: "foldS (\<lambda>s sp. atomic (reconcile_param C True mp rs ''non-asset'' s sp) s)
          (sym_diff_list (map fst gd) rs) ?s1 = ((None, l1), st')"
    by (auto elim!: then_eff_ok)
  have g1: "map_of (main_parameters ?s1) mp = Some (PDict gd)" using gd by simp
  from fold_default_non_asset [OF f g1] obtain gd' where
    g': "map_of (main_parameters st') mp = Some (PDict gd')"
    and m': "map_of gd' = (\<lambda>y. if y \<in> set (sym_diff_list (map fst gd) rs) \<and> y \<in> set rs
                          \<and> y \<in> fst ` set (KNOWN_EXTRA_PARAMETERS C)
                        then map_option (default_node C) (map_of (KNOWN_EXTRA_PARAMETERS C) y)
                        else map_of gd y)"
    by blast
  show ?thesis
    by (rule exI [of _ gd']) (use g' m' in \<open>auto simp: fun_eq_iff set_sym_diff_list\<close>)
qed

lemma sub_params_step_asset:
  assumes run: "sub_params_step C True mp (Some rs) (AssetsOf mp) n st k = ((None, l), st')"
    and k: "k \<noteq> ''non-asset''"
    and gd: "map_of (main_parameters st) mp = Some (PDict gd)"
  shows "\<exists>gd'. map_of (main_parameters st') mp = Some (PDict gd')
     \<and> map fst gd' = map fst gd
     \<and> (\<forall>k'. k' \<noteq> k \<longrightarrow> map_of gd' k' = map_of gd k')
     \<and> (\<forall>ad. map_of gd k = Some (PDict ad) \<longrightarrow>
           (\<exists>ad'. map_of gd' k = Some (PDict ad')
              \<and> map_of ad' = (\<lambda>y. if y \<in> set rs \<and> y \<notin> fst ` set ad
                                     \<and> y \<in> fst ` set (KNOWN_EXTRA_PARAMETERS C)
                        then map_option (default_node C) (map_of (KNOWN_EXTRA_PARAMETERS C) y)
                        else map_of ad y)))"
proof -
  from run gd obtain v where v: "map_of gd k = Some v"
    by (cases "map_of gd k")
       (auto simp: sub_params_step_def sub_params_value_def raise_def)
  with run gd have te:
    "then_eff (compare_sub_parameters C True mp (Some rs) k v st)
            (\<lambda>st'. if iterated_size (main_parameters st') (AssetsOf mp) \<noteq> n
                    then ((Some RuntimeError, []), st') else ((None, []), st')) = ((None, l), st')"
    by (simp add: sub_params_step_def sub_params_value_def ret_def)
  obtain e1 l1 s1 where c0: "compare_sub_parameters C True mp (Some rs) k v st = ((e1, l1), s1)"
    by (metis prod.exhaust)
  from te c0 have e1: "e1 = None"
    by (auto simp: then_eff_def split: option.splits)
  from te c0 e1 have s1: "s1 = st'"
    by (auto simp: then_eff_def split: if_splits prod.splits)
  from c0 e1 have c: "compare_sub_parameters C True mp (Some rs) k v st = ((None, l1), s1)"
    by simp
  from c obtain names ln where n: "names_of v = (Inr names, ln)"
    and f: "foldS (\<lambda>s sp. atomic (reconcile_param C True mp rs k s sp) s)
              (sym_diff_list names rs) st = ((None, l1), s1)"
    by (auto simp: compare_sub_parameters_def split: prod.splits sum.splits)
  from fold_default_asset [OF f k gd] s1 obtain gd' where
    g': "map_of (main_parameters st') mp = Some (PDict gd')"
    and k': "map fst gd' = map fst gd"
    and o': "\<forall>k'. k' \<noteq> k \<longrightarrow> map_of gd' k' = map_of gd k'"
    and a': "\<forall>ad. map_of gd k = Some (PDict ad) \<longrightarrow>
           (\<exists>ad'. map_of gd' k = Some (PDict ad')
              \<and> map_of ad' = (\<lambda>y. if y \<in> set (sym_diff_list names rs) \<and> y \<in> set rs
                                     \<and> y \<in> fst ` set (KNOWN_EXTRA_PARAMETERS C)
                        then map_option (default_node C) (map_of (KNOWN_EXTRA_PARAMETERS C) y)
                        else map_of ad y))"
    by blast
  have "\<exists>ad'. map_of gd' k = Some (PDict ad')
              \<and> map_of ad' = (\<lambda>y. if y \<in> set rs \<and> y \<notin> fst ` set ad
                                     \<and> y \<in> fst ` set (KNOWN_EXTRA_PARAMETERS C)
                        then map_option (default_node C) (map_of (KNOWN_EXTRA_PARAMETERS C) y)
                        else map_of ad y)"
    if ad: "map_of gd k = Some (PDict ad)" for ad
  proof -
    from ad v n have names: "names = map fst ad" by (simp add: ret_def)
    from a' ad obtain ad' where
      b: "map_of gd' k = Some (PDict ad')"
      and m: "map_of ad' = (\<lambda>y. if y \<in> set (sym_diff_list names rs) \<and> y \<in> set rs
                                     \<and> y \<in> fst ` set (KNOWN_EXTRA_PARAMETERS C)
                        then map_option (default_node C) (map_of (KNOWN_EXTRA_PARAMETERS C) y)
                        else map_of ad y)"
      by blast
    show ?thesis
      by (rule exI [of _ ad']) (use b m names in \<open>auto simp: fun_eq_iff set_sym_diff_list\<close>)
  qed
  with g' k' o' show ?thesis by auto
qed

lemma fold_assets:
  assumes "foldS (sub_params_step C True mp (Some rs) (AssetsOf mp) n) ks st = ((None, l), st')"
    and "''non-asset'' \<notin> set ks" and "distinct ks"
    and "map_of (main_parameters st) mp = Some (PDict gd)"
  shows "\<exists>gd'. map_of (main_parameters st') mp = Some (PDict gd')
     \<and> map fst gd' = map fst gd
     \<and> (\<forall>k. k \<notin> set ks \<longrightarrow> map_of gd' k = map_of gd k)
     \<and> (\<forall>k ad. k \<in> set ks \<and> map_of gd k = Some (PDict ad) \<longrightarrow>
           (\<exists>ad'. map_of gd' k = Some (PDict ad')
              \<and> map_of ad' = (\<lambda>y. if y \<in> set rs \<and> y \<notin> fst ` set ad
                                     \<and> y \<in> fst ` set (KNOWN_EXTRA_PARAMETERS C)
                        then map_option (default_node C) (map_of (KNOWN_EXTRA_PARAMETERS C) y)
                        else map_of ad y)))"
  using assms
proof (induction ks arbitrary: st gd l)
  case Nil
  then show ?case by simp
next
  case (Cons k ks)
  from Cons.prems(1) obtain l1 s1 l2 where
    a: "sub_params_step C True mp (Some rs) (AssetsOf mp) n st k = ((None, l1), s1)"
    and f: "foldS (sub_params_step C True mp (Some rs) (AssetsOf mp) n) ks s1 = ((None, l2), st')"
    by (rule foldS_cons_ok)
  from Cons.prems have kn: "k \<noteq> ''non-asset''" and nks: "''non-asset'' \<notin> set ks"
    and dks: "distinct ks" and knks: "k \<notin> set ks"
    by auto
  from sub_params_step_asset [OF a kn Cons.prems(4)] obtain gd1 where
    g1: "map_of (main_parameters s1) mp = Some (PDict gd1)"
    and k1: "map fst gd1 = map fst gd"
    and o1: "\<forall>k'. k' \<noteq> k \<longrightarrow> map_of gd1 k' = map_of gd k'"
    and a1: "\<forall>ad. map_of gd k = Some (PDict ad) \<longrightarrow>
           (\<exists>ad'. map_of gd1 k = Some (PDict ad')
              \<and> map_of ad' = (\<lambda>y. if y \<in> set rs \<and> y \<notin> fst ` set ad
                                     \<and> y \<in> fst ` set (KNOWN_EXTRA_PARAMETERS C)
                        then map_option (default_node C) (map_of (KNOWN_EXTRA_PARAMETERS C) y)
                        else map_of ad y))"
    by blast
  from Cons.IH [OF f nks dks g1] obtain gd' where
    g': "map_of (main_parameters st') mp = Some (PDict gd')"
    and k': "map fst gd' = map fst gd1"
    and o': "\<forall>k. k \<notin> set ks \<longrightarrow> map_of gd' k = map_of gd1 k"
    and a': "\<forall>k ad. k \<in> set ks \<and> map_of gd1 k = Some (PDict ad) \<longrightarrow>
           (\<exists>ad'. map_of gd' k = Some (PDict ad')
              \<and> map_of ad' = (\<lambda>y. if y \<in> set rs \<and> y \<notin> fst ` set ad
                                     \<and> y \<in> fst ` set (KNOWN_EXTRA_PARAMETERS C)
                        then map_option (default_node C) (map_of (KNOWN_EXTRA_PARAMETERS C) y)
                        else map_of ad y))"
    by blast
  have "\<exists>ad'. map_of gd' k0 = Some (PDict ad')
              \<and> map_of ad' = (\<lambda>y. if y \<in> set rs \<and> y \<notin> fst ` set ad
                                     \<and> y \<in> fst ` set (KNOWN_EXTRA_PARAMETERS C)
                        then map_option (default_node C) (map_of (KNOWN_EXTRA_PARAMETERS C) y)
                        else map_of ad y)"
    if k0: "k0 \<in> set (k # ks)" and ad: "map_of gd k0 = Some (PDict ad)" for k0 ad
  proof (cases "k0 = k")
    case True
    with a1 ad o' knks show ?thesis by auto
  next
    case False
    with k0 have "k0 \<in> set ks" by simp
    moreover from False o1 ad have "map_of gd1 k0 = Some (PDict ad)" by simp
    ultimately show ?thesis using a' by blast
  qed
  moreover have "\<forall>k0. k0 \<notin> set (k # ks) \<longrightarrow> map_of gd' k0 = map_of gd k0"
    using o' o1 by auto
  ultimately show ?case using g' k' k1 by auto
qed

lemma compare_group_default_asset:
  assumes run: "compare_group C True req st mp = ((None, l), st')"
    and rs: "map_of req mp = Some (Some rs)"
    and na: "mp \<notin> set (non_asset_groups C)" and as: "mp \<in> set (asset_groups C)"
    and gd: "map_of (main_parameters st) mp = Some (PDict gd)"
    and nk: "''non-asset'' \<notin> fst ` set gd" and dk: "distinct (map fst gd)"
  shows "\<exists>gd'. map_of (main_parameters st') mp = Some (PDict gd')
     \<and> map fst gd' = map fst gd
     \<and> (\<forall>k ad. map_of gd k = Some (PDict ad) \<longrightarrow>
           (\<exists>ad'. map_of gd' k = Some (PDict ad')
              \<and> map_of ad' = (\<lambda>y. if y \<in> set rs \<and> y \<notin> fst ` set ad
                                     \<and> y \<in> fst ` set (KNOWN_EXTRA_PARAMETERS C)
                        then map_option (default_node C) (map_of (KNOWN_EXTRA_PARAMETERS C) y)
                        else map_of ad y)))"
proof -
  let ?s1 = "st\<lparr>sub_params := Some (AssetsOf mp)\<rparr>"
  from run rs na as gd have
    f: "foldS (sub_params_step C True mp (Some rs) (AssetsOf mp) (Some (length gd)))
          (map fst gd) ?s1 = ((None, l), st')"
    by (simp add: compare_group_def choose_sub_params_def atomic_def then_eff_def ret_def
        sub_params_keys_def iterated_size_def split: prod.splits option.splits)
  have g1: "map_of (main_parameters ?s1) mp = Some (PDict gd)" using gd by simp
  from nk have nk': "''non-asset'' \<notin> set (map fst gd)" by simp
  from fold_assets [OF f nk' dk g1] obtain gd' where
    g': "map_of (main_parameters st') mp = Some (PDict gd')"
    and k': "map fst gd' = map fst gd"
    and a': "\<forall>k ad. k \<in> set (map fst gd) \<and> map_of gd k = Some (PDict ad) \<longrightarrow>
           (\<exists>ad'. map_of gd' k = Some (PDict ad')
              \<and> map_of ad' = (\<lambda>y. if y \<in> set rs \<and> y \<notin> fst ` set ad
                                     \<and> y \<in> fst ` set (KNOWN_EXTRA_PARAMETERS C)
                        then map_option (default_node C) (map_of (KNOWN_EXTRA_PARAMETERS C) y)
                        else map_of ad y))"
    by blast
  have "k \<in> set (map fst gd)" if "map_of gd k = Some v" for k v
    using that by (metis domI dom_map_of_conv_image_fst set_map)
  with g' k' a' show ?thesis by blast
qed


text \<open>
  A relation between the states before and after that every pass for one name keeps,
  and that writing \<open>sub_params\<close> or \<open>extra_parameters\<close> keeps, holds for a whole group.
\<close>

lemma compare_sub_parameters_rel:
  assumes run: "compare_sub_parameters C sd mp required k v st = (r, st')"
    and refl: "\<And>s. R s s"
    and trans: "\<And>a b c. R a b \<Longrightarrow> R b c \<Longrightarrow> R a c"
    and param: "\<And>rs k s x s' l. reconcile_param C sd mp rs k s x = (Inr s', l) \<Longrightarrow> R s s'"
  shows "R st st'"
proof (cases required)
  case None
  with run show ?thesis by (simp add: compare_sub_parameters_def refl)
next
  case (Some rs)
  obtain nr nl where n: "names_of v = (nr, nl)" by (cases "names_of v")
  show ?thesis
  proof (cases nr)
    case (Inl e)
    with run Some n show ?thesis by (simp add: compare_sub_parameters_def refl)
  next
    case (Inr names)
    with run Some n have
      "foldS (\<lambda>s sp. atomic (reconcile_param C sd mp rs k s sp) s) (sym_diff_list names rs) st =
         (r, st')"
      by (simp add: compare_sub_parameters_def)
    then show ?thesis
    proof (rule foldS_rel [where R = R])
      fix s x r' s'
      assume "atomic (reconcile_param C sd mp rs k s x) s = (r', s')"
      then show "R s s'"
        by (rule atomic_rel) (use param refl in blast)+
    qed (use refl trans in blast)+
  qed
qed

lemma sub_params_step_rel:
  assumes run: "sub_params_step C sd mp required r0 n st k = (r, st')"
    and refl: "\<And>s. R s s"
    and trans: "\<And>a b c. R a b \<Longrightarrow> R b c \<Longrightarrow> R a c"
    and param: "\<And>rs k s x s' l. reconcile_param C sd mp rs k s x = (Inr s', l) \<Longrightarrow> R s s'"
  shows "R st st'"
proof -
  obtain vr vl where v: "sub_params_value (main_parameters st) r0 k = (vr, vl)"
    by (cases "sub_params_value (main_parameters st) r0 k")
  show ?thesis
  proof (cases vr)
    case (Inl e)
    with run v show ?thesis by (simp add: sub_params_step_def refl)
  next
    case (Inr sp)
    obtain r1 s1 where c: "compare_sub_parameters C sd mp required k sp st = (r1, s1)"
      by (cases "compare_sub_parameters C sd mp required k sp st")
    have c1: "R st s1"
      using c refl trans param by (rule compare_sub_parameters_rel [where R = R])
    from run v Inr have
      "then_eff (compare_sub_parameters C sd mp required k sp st)
         (\<lambda>st'. if iterated_size (main_parameters st') r0 \<noteq> n
                 then ((Some RuntimeError, []), st') else ((None, []), st')) = (r, st')"
      by (simp add: sub_params_step_def)
    then show ?thesis
    proof (rule then_eff_rel [where R = R and s = st and ?s0.0 = s1, OF _ c c1])
      fix s :: cmp_state and r' s'
      assume "(if iterated_size (main_parameters s) r0 \<noteq> n
                 then ((Some RuntimeError, []), s) else ((None, []), s)) = (r', s')"
      then show "R s s'" by (auto simp: refl split: if_splits)
    qed (use trans in blast)
  qed
qed

lemma compare_group_rel:
  assumes run: "compare_group C sd req st mp = (r, st')"
    and refl: "\<And>s. R s s"
    and trans: "\<And>a b c. R a b \<Longrightarrow> R b c \<Longrightarrow> R a c"
    and param: "\<And>rs k s x s' l. reconcile_param C sd mp rs k s x = (Inr s', l) \<Longrightarrow> R s s'"
    and subp: "\<And>s v. R s (s\<lparr>sub_params := v\<rparr>)"
    and extra: "\<And>s v. R s (s\<lparr>extra_parameters := v\<rparr>)"
  shows "R st st'"
proof (cases "map_of req mp")
  case None
  with run show ?thesis by (auto simp: compare_group_def extra)
next
  case (Some required)
  obtain r1 s1 where a: "atomic (choose_sub_params C mp st) st = (r1, s1)"
    by (cases "atomic (choose_sub_params C mp st) st")
  have k1: "R st s1"
    using a
    by (auto simp: atomic_def choose_sub_params_def ret_def raise_def dict_get_def refl subp
        split: if_splits option.splits pyval.splits prod.splits sum.splits)
  from run Some have
    "then_eff (atomic (choose_sub_params C mp st) st) (\<lambda>st.
            case sub_params st of
              None \<Rightarrow> ((Some UnboundLocalError, []), st)
            | Some r \<Rightarrow>
                (case sub_params_keys (main_parameters st) r of
                   (Inl e, l) \<Rightarrow> ((Some e, l), st)
                 | (Inr ks, l) \<Rightarrow>
                     foldS (sub_params_step C sd mp required r
                              (iterated_size (main_parameters st) r)) ks st)) = (r, st')"
    by (simp add: compare_group_def)
  then show ?thesis
  proof (rule then_eff_rel [where R = R and s = st and ?s0.0 = s1, OF _ a k1])
    fix s r' s'
    assume b: "(case sub_params s of
              None \<Rightarrow> ((Some UnboundLocalError, []), s)
            | Some r \<Rightarrow>
                (case sub_params_keys (main_parameters s) r of
                   (Inl e, l) \<Rightarrow> ((Some e, l), s)
                 | (Inr ks, l) \<Rightarrow>
                     foldS (sub_params_step C sd mp required r
                              (iterated_size (main_parameters s) r)) ks s)) = (r', s')"
    show "R s s'"
    proof (cases "sub_params s")
      case None
      with b show ?thesis by (simp add: refl)
    next
      case (Some r0)
      obtain kr kl where ks: "sub_params_keys (main_parameters s) r0 = (kr, kl)"
        by (cases "sub_params_keys (main_parameters s) r0")
      show ?thesis
      proof (cases kr)
        case (Inl e)
        with b Some ks show ?thesis by (simp add: refl)
      next
        case (Inr keys)
        with b Some ks have
          "foldS (sub_params_step C sd mp required r0 (iterated_size (main_parameters s) r0))
             keys s = (r', s')" by simp
        then show ?thesis
        proof (rule foldS_rel [where R = R])
          fix s2 x r2 s3
          assume "sub_params_step C sd mp required r0 (iterated_size (main_parameters s) r0)
                    s2 x = (r2, s3)"
          then show "R s2 s3"
            using refl trans param by (rule sub_params_step_rel [where R = R])
        qed (use refl trans in blast)+
      qed
    qed
  qed (use trans in blast)
qed

lemma reconcile_param_no_known:
  assumes "reconcile_param C True mp rs k s x = (Inr s', l)" and "no_known_missing C s"
  shows "no_known_missing C s'"
proof (cases "x \<in> set rs")
  case False
  with assms(1) have "missing_parameters s' = missing_parameters s"
    by (auto simp: reconcile_param_def ret_def split: if_splits)
  with assms(2) show ?thesis by (simp add: no_known_missing_def)
next
  case True
  show ?thesis
  proof (cases "x \<in> fst ` set (KNOWN_EXTRA_PARAMETERS C)")
    case kn: True
    with True assms(1) obtain m where "s' = s\<lparr>main_parameters := m\<rparr>"
      by (auto simp: reconcile_param_def ret_def elim!: bind_InrE)
    with assms(2) show ?thesis by (simp add: no_known_missing_def)
  next
    case nk: False
    with True assms(1) obtain pl l1 where
      pl: "get_missing (missing_parameters s) mp = (Inr pl, l1)"
      and s': "s' = s\<lparr>missing_parameters :=
                       dict_set (missing_parameters s) mp (Some (pl @ [x]))\<rparr>"
      by (auto simp: reconcile_param_def ret_def elim!: bind_InrE)
    from pl assms(2) have "set pl \<inter> fst ` set (KNOWN_EXTRA_PARAMETERS C) = {}"
      by (auto simp: get_missing_def no_known_missing_def ret_def raise_def
          split: option.splits)
    have x: "x \<notin> fst ` set (KNOWN_EXTRA_PARAMETERS C)" using nk .
    show ?thesis
      unfolding no_known_missing_def
    proof (intro allI impI)
      fix g xs
      assume g: "map_of (missing_parameters s') g = Some (Some xs)"
      show "set xs \<inter> fst ` set (KNOWN_EXTRA_PARAMETERS C) = {}"
      proof (cases "g = mp")
        case True
        with g s' have "xs = pl @ [x]" by (simp add: map_of_dict_set)
        with \<open>set pl \<inter> fst ` set (KNOWN_EXTRA_PARAMETERS C) = {}\<close> x show ?thesis
          by auto
      next
        case False
        with g s' have "map_of (missing_parameters s) g = Some (Some xs)"
          by (simp add: map_of_dict_set)
        with assms(2) show ?thesis unfolding no_known_missing_def by blast
      qed
    qed
  qed
qed

lemma compare_group_no_known:
  assumes "compare_group C True req st mp = (r, st')" and "no_known_missing C st"
  shows "no_known_missing C st'"
proof -
  have "no_known_missing C st \<longrightarrow> no_known_missing C st'"
    using assms(1)
  proof (rule compare_group_rel [where R = "\<lambda>a b. no_known_missing C a \<longrightarrow> no_known_missing C b"])
    fix rs k s x s' l
    assume "reconcile_param C True mp rs k s x = (Inr s', l)"
    then show "no_known_missing C s \<longrightarrow> no_known_missing C s'"
      using reconcile_param_no_known by blast
  next
    fix s :: cmp_state
    show "no_known_missing C s \<longrightarrow> no_known_missing C s" by simp
  next
    fix a b c :: cmp_state
    assume "no_known_missing C a \<longrightarrow> no_known_missing C b"
      and "no_known_missing C b \<longrightarrow> no_known_missing C c"
    then show "no_known_missing C a \<longrightarrow> no_known_missing C c" by blast
  next
    fix s :: cmp_state and v
    show "no_known_missing C s \<longrightarrow> no_known_missing C (s\<lparr>sub_params := v\<rparr>)"
      by (simp add: no_known_missing_def)
  next
    fix s :: cmp_state and v
    show "no_known_missing C s \<longrightarrow> no_known_missing C (s\<lparr>extra_parameters := v\<rparr>)"
      by (simp add: no_known_missing_def)
  qed
  with assms(2) show ?thesis by simp
qed

lemma foldS_groups_no_known:
  assumes "foldS (compare_group C True req) gs st = (r, st')" and "no_known_missing C st"
  shows "no_known_missing C st'"
proof -
  have "no_known_missing C st \<longrightarrow> no_known_missing C st'"
    using assms(1)
  proof (rule foldS_rel [where R = "\<lambda>a b. no_known_missing C a \<longrightarrow> no_known_missing C b"])
    fix s x r s'
    assume "compare_group C True req s x = (r, s')"
    then show "no_known_missing C s \<longrightarrow> no_known_missing C s'"
      using compare_group_no_known by blast
  qed blast+
  with assms(2) show ?thesis by simp
qed

section \<open>Default values are written into the dict of the caller\<close>

text \<open>
  C9: a call of \<open>compare_input_parameters_with_reference\<close> on a dict with
  \<open>set_default=True\<close> that returns has changed the dict of the caller. For a required
  parameter \<open>sp\<close> that is a known extra parameter and that a group of project parameters
  does not provide, the group holds afterwards the node with the unit and the default
  value of \<open>KNOWN_EXTRA_PARAMETERS\<close>, and what the group held before is unchanged. The
  same holds for an asset of a group of assets that does not provide \<open>sp\<close>. The
  returned answer does not list \<open>sp\<close> as missing for the group.
\<close>

theorem defaults_written_into_dict:
  assumes run: "compare_input_parameters_with_reference C folder_path (JSON_EXT C) flag_missing
                  True = ((Inr a, lg), main')"
    and req: "map_of (REQUIRED_MVS_PARAMETERS C) (JSON_EXT C) = Some req"
    and rs: "map_of req mp = Some (Some rs)"
    and gd: "map_of folder_path mp = Some (PDict gd)"
    and dist: "distinct (map fst folder_path)"
    and keys: "MISSING_PARAMETERS_KEY C \<noteq> EXTRA_PARAMETERS_KEY C"
    and sp: "sp \<in> set rs"
    and ke: "map_of (KNOWN_EXTRA_PARAMETERS C) sp = Some ke"
  shows "(mp \<in> set (non_asset_groups C) \<and> sp \<notin> fst ` set gd \<longrightarrow>
            (\<exists>gd'. map_of main' mp = Some (PDict gd')
               \<and> map_of gd' sp = Some (default_node C ke)
               \<and> (\<forall>x \<in> fst ` set gd. map_of gd' x = map_of gd x)))
       \<and> (mp \<notin> set (non_asset_groups C) \<and> mp \<in> set (asset_groups C)
            \<and> ''non-asset'' \<notin> fst ` set gd \<and> distinct (map fst gd)
            \<and> map_of gd k = Some (PDict ad) \<and> sp \<notin> fst ` set ad \<longrightarrow>
            (\<exists>gd' ad'. map_of main' mp = Some (PDict gd')
               \<and> map_of gd' k = Some (PDict ad')
               \<and> map_of ad' sp = Some (default_node C ke)
               \<and> (\<forall>x \<in> fst ` set ad. map_of ad' x = map_of ad x)))
       \<and> sp \<notin> set (reported a (MISSING_PARAMETERS_KEY C) mp)"
proof -
  let ?s0 = "\<lparr>main_parameters = folder_path, missing_parameters = [],
        extra_parameters = [], sub_params = None\<rparr>"
  from run req obtain l st where
    f: "foldS (compare_group C True req) (map fst folder_path) ?s0 = ((None, l), st)"
    and main': "main' = main_parameters st"
    and a: "a = make_answer C
           (missing_groups req (main_parameters st) (missing_parameters st))
           (extra_parameters st)"
    by (rule compare_run_ok)
  from ke have known: "sp \<in> fst ` set (KNOWN_EXTRA_PARAMETERS C)"
    by (metis domI dom_map_of_conv_image_fst)
  from gd have inkeys: "mp \<in> set (map fst folder_path)"
    by (metis domI dom_map_of_conv_image_fst set_map)
  from inkeys dist obtain pre post where split: "map fst folder_path = pre @ mp # post"
    and npre: "mp \<notin> set pre" and npost: "mp \<notin> set post"
    by (rule split_distinct)
  from f split obtain l1 s1 l2 s2 l3 where
    f1: "foldS (compare_group C True req) pre ?s0 = ((None, l1), s1)"
    and f2: "compare_group C True req s1 mp = ((None, l2), s2)"
    and f3: "foldS (compare_group C True req) post s2 = ((None, l3), st)"
    by (metis foldS_split_ok)
  from foldS_groups_kept [OF f1 npre] gd have
    m1: "map_of (main_parameters s1) mp = Some (PDict gd)"
    by simp
  from foldS_groups_kept [OF f3 npost] have
    m3: "map_of (main_parameters st) mp = map_of (main_parameters s2) mp"
    by simp
  have part1: "\<exists>gd'. map_of main' mp = Some (PDict gd')
               \<and> map_of gd' sp = Some (default_node C ke)
               \<and> (\<forall>x \<in> fst ` set gd. map_of gd' x = map_of gd x)"
    if na: "mp \<in> set (non_asset_groups C)" and nin: "sp \<notin> fst ` set gd"
  proof -
    from compare_group_default_non_asset [OF f2 rs na m1] obtain gd' where
      g': "map_of (main_parameters s2) mp = Some (PDict gd')"
      and m': "map_of gd' = (\<lambda>y. if y \<in> set rs \<and> y \<notin> fst ` set gd
                                   \<and> y \<in> fst ` set (KNOWN_EXTRA_PARAMETERS C)
                        then map_option (default_node C) (map_of (KNOWN_EXTRA_PARAMETERS C) y)
                        else map_of gd y)"
      by blast
    show ?thesis
      by (rule exI [of _ gd']) (use g' m' m3 main' sp nin known ke in auto)
  qed
  have part2: "\<exists>gd' ad'. map_of main' mp = Some (PDict gd')
               \<and> map_of gd' k = Some (PDict ad')
               \<and> map_of ad' sp = Some (default_node C ke)
               \<and> (\<forall>x \<in> fst ` set ad. map_of ad' x = map_of ad x)"
    if na: "mp \<notin> set (non_asset_groups C)" and as: "mp \<in> set (asset_groups C)"
      and nk: "''non-asset'' \<notin> fst ` set gd" and dk: "distinct (map fst gd)"
      and ad: "map_of gd k = Some (PDict ad)" and nin: "sp \<notin> fst ` set ad"
  proof -
    from compare_group_default_asset [OF f2 rs na as m1 nk dk] ad obtain gd' ad' where
      g': "map_of (main_parameters s2) mp = Some (PDict gd')"
      and k': "map_of gd' k = Some (PDict ad')"
      and m': "map_of ad' = (\<lambda>y. if y \<in> set rs \<and> y \<notin> fst ` set ad
                                   \<and> y \<in> fst ` set (KNOWN_EXTRA_PARAMETERS C)
                        then map_option (default_node C) (map_of (KNOWN_EXTRA_PARAMETERS C) y)
                        else map_of ad y)"
      by blast
    show ?thesis
      by (rule exI [of _ gd'], rule exI [of _ ad'])
         (use g' k' m' m3 main' sp nin known ke in auto)
  qed
  have inv: "no_known_missing C st"
    using f by (rule foldS_groups_no_known) (simp add: no_known_missing_def)
  from foldS_groups_kept [OF f1 npre] compare_group_kept [OF f2] foldS_groups_kept [OF f3 npost]
  have "map fst (main_parameters st) = map fst folder_path"
    by (simp add: others_kept_def)
  with split have inm: "mp \<in> fst ` set (main_parameters st)"
    by (metis in_set_conv_decomp set_map)
  have "reported a (MISSING_PARAMETERS_KEY C) mp = listed (missing_parameters st) mp"
    using a reported_make_answer(1) [OF keys] missing_groups_kept [OF inm]
    by (simp add: listed_def)
  with inv known have part3: "sp \<notin> set (reported a (MISSING_PARAMETERS_KEY C) mp)"
    by (auto simp: no_known_missing_def listed_def split: option.splits)
  from part1 part2 part3 show ?thesis by blast
qed


theorem defaults_written_into_dict_witness:
  "compare_input_parameters_with_reference example_constants example_parameters
       (JSON_EXT example_constants) False True =
     ((Inr [(''extra_parameters'', [(''economic_data'', Some [''d''])])],
       [Log WARNING ''default_value_set'' [''c'', ''economic_data''],
        Log WARNING ''default_value_set_for_asset''
          [''maximumCap'', ''pv_plant'', ''energyProduction'']]),
      [(''economic_data'',
          PDict [(''a'', PDict [(''value'', PInt 1), (''unit'', PStr ''factor'')]),
                 (''b'', PDict [(''value'', PInt 2), (''unit'', PStr ''factor'')]),
                 (''d'', PDict [(''value'', PInt 4), (''unit'', PStr ''factor'')]),
                 (''c'', PDict [(''unit'', PStr ''factor''), (''value'', PInt 0)])]),
       (''energyProduction'',
          PDict [(''pv_plant'',
                    PDict [(''label'', PStr ''PV plant''),
                           (''maximumCap'',
                              PDict [(''unit'', PStr ''None or float''),
                                     (''value'', PNone)])])])])
   \<and> (\<exists>gd'. map_of
          [(''economic_data'',
              PDict [(''a'', PDict [(''value'', PInt 1), (''unit'', PStr ''factor'')]),
                     (''b'', PDict [(''value'', PInt 2), (''unit'', PStr ''factor'')]),
                     (''d'', PDict [(''value'', PInt 4), (''unit'', PStr ''factor'')]),
                     (''c'', PDict [(''unit'', PStr ''factor''), (''value'', PInt 0)])]),
           (''energyProduction'',
              PDict [(''pv_plant'',
                        PDict [(''label'', PStr ''PV plant''),
                               (''maximumCap'',
                                  PDict [(''unit'', PStr ''None or float''),
                                         (''value'', PNone)])])])]
          ''economic_data'' = Some (PDict gd')
        \<and> map_of gd' ''c'' =
            Some (default_node example_constants
                    \<lparr>ke_unit = PStr ''factor'', ke_default = PInt 0,
                     ke_warning = ''is a new parameter''\<rparr>))
   \<and> (\<exists>gd' ad'. map_of
          [(''economic_data'',
              PDict [(''a'', PDict [(''value'', PInt 1), (''unit'', PStr ''factor'')]),
                     (''b'', PDict [(''value'', PInt 2), (''unit'', PStr ''factor'')]),
                     (''d'', PDict [(''value'', PInt 4), (''unit'', PStr ''factor'')]),
                     (''c'', PDict [(''unit'', PStr ''factor''), (''value'', PInt 0)])]),
           (''energyProduction'',
              PDict [(''pv_plant'',
                        PDict [(''label'', PStr ''PV plant''),
                               (''maximumCap'',
                                  PDict [(''unit'', PStr ''None or float''),
                                         (''value'', PNone)])])])]
          ''energyProduction'' = Some (PDict gd')
        \<and> map_of gd' ''pv_plant'' = Some (PDict ad')
        \<and> map_of ad' ''maximumCap'' =
            Some (default_node example_constants
                    \<lparr>ke_unit = PStr ''None or float'', ke_default = PNone,
                     ke_warning = ''allows setting a maximum capacity''\<rparr>))
   \<and> ''c'' \<notin> set (reported [(''extra_parameters'', [(''economic_data'', Some [''d''])])]
                      (MISSING_PARAMETERS_KEY example_constants) ''economic_data'')"
proof -
  let ?gd = "[(''a'', PDict [(''value'', PInt 1), (''unit'', PStr ''factor'')]),
              (''b'', PDict [(''value'', PInt 2), (''unit'', PStr ''factor'')]),
              (''d'', PDict [(''value'', PInt 4), (''unit'', PStr ''factor'')])]"
  let ?ad = "[(''label'', PStr ''PV plant'')]"
  let ?req = "[(''economic_data'', Some [''a'', ''b'', ''c'']),
               (''energyProduction'', Some [''label'', ''maximumCap''])]"
  have run: "compare_input_parameters_with_reference example_constants example_parameters
       (JSON_EXT example_constants) False True =
     ((Inr [(''extra_parameters'', [(''economic_data'', Some [''d''])])],
       [Log WARNING ''default_value_set'' [''c'', ''economic_data''],
        Log WARNING ''default_value_set_for_asset''
          [''maximumCap'', ''pv_plant'', ''energyProduction'']]),
      [(''economic_data'',
          PDict [(''a'', PDict [(''value'', PInt 1), (''unit'', PStr ''factor'')]),
                 (''b'', PDict [(''value'', PInt 2), (''unit'', PStr ''factor'')]),
                 (''d'', PDict [(''value'', PInt 4), (''unit'', PStr ''factor'')]),
                 (''c'', PDict [(''unit'', PStr ''factor''), (''value'', PInt 0)])]),
       (''energyProduction'',
          PDict [(''pv_plant'',
                    PDict [(''label'', PStr ''PV plant''),
                           (''maximumCap'',
                              PDict [(''unit'', PStr ''None or float''),
                                     (''value'', PNone)])])])])"
    by code_simp
  have req: "map_of (REQUIRED_MVS_PARAMETERS example_constants) (JSON_EXT example_constants) =
      Some ?req"
    by (simp add: example_constants_def)
  have rs1: "map_of ?req ''economic_data'' = Some (Some [''a'', ''b'', ''c''])"
    and rs2: "map_of ?req ''energyProduction'' = Some (Some [''label'', ''maximumCap''])"
    by simp_all
  have gd1: "map_of example_parameters ''economic_data'' = Some (PDict ?gd)"
    and gd2: "map_of example_parameters ''energyProduction'' =
                Some (PDict [(''pv_plant'', PDict ?ad)])"
    by (simp_all add: example_parameters_def)
  have dist: "distinct (map fst example_parameters)"
    by (simp add: example_parameters_def)
  have keys: "MISSING_PARAMETERS_KEY example_constants \<noteq> EXTRA_PARAMETERS_KEY example_constants"
    by (simp add: example_constants_def)
  have sp1: "''c'' \<in> set [''a'', ''b'', ''c'']"
    and sp2: "''maximumCap'' \<in> set [''label'', ''maximumCap'']"
    by simp_all
  have ke1: "map_of (KNOWN_EXTRA_PARAMETERS example_constants) ''c'' =
      Some \<lparr>ke_unit = PStr ''factor'', ke_default = PInt 0,
            ke_warning = ''is a new parameter''\<rparr>"
    and ke2: "map_of (KNOWN_EXTRA_PARAMETERS example_constants) ''maximumCap'' =
      Some \<lparr>ke_unit = PStr ''None or float'', ke_default = PNone,
            ke_warning = ''allows setting a maximum capacity''\<rparr>"
    by (simp_all add: example_constants_def)
  have na1: "''economic_data'' \<in> set (non_asset_groups example_constants)"
    "''c'' \<notin> fst ` set ?gd"
    by (simp_all add: example_constants_def)
  have as2: "''energyProduction'' \<notin> set (non_asset_groups example_constants)"
    "''energyProduction'' \<in> set (asset_groups example_constants)"
    "''non-asset'' \<notin> fst ` set [(''pv_plant'', PDict ?ad)]"
    "distinct (map fst [(''pv_plant'', PDict ?ad)])"
    "map_of [(''pv_plant'', PDict ?ad)] ''pv_plant'' = Some (PDict ?ad)"
    "''maximumCap'' \<notin> fst ` set ?ad"
    by (simp_all add: example_constants_def)
  note t1 = defaults_written_into_dict [OF run req rs1 gd1 dist keys sp1 ke1,
      of "''pv_plant''" ?ad]
  note t2 = defaults_written_into_dict [OF run req rs2 gd2 dist keys sp2 ke2,
      of "''pv_plant''" ?ad]
  from t1 na1 have c1: "\<exists>gd'. map_of
          [(''economic_data'',
              PDict [(''a'', PDict [(''value'', PInt 1), (''unit'', PStr ''factor'')]),
                     (''b'', PDict [(''value'', PInt 2), (''unit'', PStr ''factor'')]),
                     (''d'', PDict [(''value'', PInt 4), (''unit'', PStr ''factor'')]),
                     (''c'', PDict [(''unit'', PStr ''factor''), (''value'', PInt 0)])]),
           (''energyProduction'',
              PDict [(''pv_plant'',
                        PDict [(''label'', PStr ''PV plant''),
                               (''maximumCap'',
                                  PDict [(''unit'', PStr ''None or float''),
                                         (''value'', PNone)])])])]
          ''economic_data'' = Some (PDict gd')
        \<and> map_of gd' ''c'' =
            Some (default_node example_constants
                    \<lparr>ke_unit = PStr ''factor'', ke_default = PInt 0,
                     ke_warning = ''is a new parameter''\<rparr>)"
    by blast
  from t1 have c3: "''c'' \<notin> set (reported [(''extra_parameters'', [(''economic_data'', Some [''d''])])]
                      (MISSING_PARAMETERS_KEY example_constants) ''economic_data'')"
    by blast
  from t2 as2 have c2: "\<exists>gd' ad'. map_of
          [(''economic_data'',
              PDict [(''a'', PDict [(''value'', PInt 1), (''unit'', PStr ''factor'')]),
                     (''b'', PDict [(''value'', PInt 2), (''unit'', PStr ''factor'')]),
                     (''d'', PDict [(''value'', PInt 4), (''unit'', PStr ''factor'')]),
                     (''c'', PDict [(''unit'', PStr ''factor''), (''value'', PInt 0)])]),
           (''energyProduction'',
              PDict [(''pv_plant'',
                        PDict [(''label'', PStr ''PV plant''),
                               (''maximumCap'',
                                  PDict [(''unit'', PStr ''None or float''),
                                         (''value'', PNone)])])])]
          ''energyProduction'' = Some (PDict gd')
        \<and> map_of gd' ''pv_plant'' = Some (PDict ad')
        \<and> map_of ad' ''maximumCap'' =
            Some (default_node example_constants
                    \<lparr>ke_unit = PStr ''None or float'', ke_default = PNone,
                     ke_warning = ''allows setting a maximum capacity''\<rparr>)"
    by blast
  from run c1 c2 c3 show ?thesis by blast
qed


section \<open>Facts about the columns of a storage table\<close>




lemma index_set_loc [simp]: "index (set_loc d j c v) = index d"
  by (simp add: index_def set_loc_def comp_def case_prod_unfold)


















section \<open>An empty cell of a required storage parameter\<close>




end
